theory Spec2Isabelle
  imports Main "HOL-Library.Word"
begin

text \<open>
  A shallow embedding of the request handlers that exchange messages with the completion
  API: the two reply handlers, the resume-greeting handler, the two new-chat greeting
  handlers, the journey kickoff handler and the resolve-or-create journey handler. A
  handler is a function of the environment of the request (identity service, faults and
  stamps of the store, completion API), the store and the request; it returns the
  response, the store it leaves and the trace of the store operations and completion calls
  it issued. Every early return and every exception path of the source is a branch.
\<close>

section \<open>JavaScript values used by the handlers\<close>

text \<open>
  A JavaScript string is a sequence of UTF-16 code units. The literals of the source are
  ASCII and are written with \<open>js\<close>.
\<close>

type_synonym jsstring = "16 word list"

definition js :: "string \<Rightarrow> jsstring" where
  "js s = map of_char s"

text \<open>
  \<open>String.prototype.trim\<close> strips WhiteSpace and LineTerminator code units from both ends:
  TAB, LF, VT, FF, CR, SP, NBSP, U+1680, U+2000..U+200A, LS, PS, U+202F, U+205F, U+3000
  and the byte order mark.
\<close>

definition is_js_whitespace :: "16 word \<Rightarrow> bool" where
  "is_js_whitespace c \<longleftrightarrow>
     c \<in> {0x9, 0xA, 0xB, 0xC, 0xD, 0x20, 0xA0, 0x1680, 0x2028, 0x2029, 0x202F, 0x205F,
          0x3000, 0xFEFF}
     \<or> (0x2000 \<le> c \<and> c \<le> 0x200A)"

definition trim :: "jsstring \<Rightarrow> jsstring" where
  "trim s = rev (dropWhile is_js_whitespace (rev (dropWhile is_js_whitespace s)))"

text \<open>
  \<open>!v\<close> on an optional string: \<open>undefined\<close>, \<open>null\<close> and the empty string are falsy.
  \<open>required v\<close> is the string when \<open>v\<close> is truthy.
\<close>

definition required :: "jsstring option \<Rightarrow> jsstring option" where
  "required v = (case v of None \<Rightarrow> None | Some s \<Rightarrow> if s = [] then None else Some s)"

text \<open>
  \<open>s.replace(pattern, replacement)\<close> with a string pattern: the first occurrence is
  replaced, and in the replacement \<open>$$\<close>, \<open>$&\<close>, \<open>$`\<close> and \<open>$'\<close> stand for a dollar sign,
  the match, the text before it and the text after it.
\<close>

fun get_substitution :: "jsstring \<Rightarrow> jsstring \<Rightarrow> jsstring \<Rightarrow> jsstring \<Rightarrow> jsstring" where
  "get_substitution m b a [] = []"
| "get_substitution m b a [c] = [c]"
| "get_substitution m b a (c # d # r) =
     (if c = 0x24 \<and> d = 0x24 then 0x24 # get_substitution m b a r
      else if c = 0x24 \<and> d = 0x26 then m @ get_substitution m b a r
      else if c = 0x24 \<and> d = 0x60 then b @ get_substitution m b a r
      else if c = 0x24 \<and> d = 0x27 then a @ get_substitution m b a r
      else c # get_substitution m b a (d # r))"

fun find_first :: "jsstring \<Rightarrow> jsstring \<Rightarrow> jsstring \<Rightarrow> (jsstring \<times> jsstring) option" where
  "find_first pat before [] = (if pat = [] then Some (rev before, []) else None)"
| "find_first pat before (c # s) =
     (if take (length pat) (c # s) = pat then Some (rev before, drop (length pat) (c # s))
      else find_first pat (c # before) s)"

definition replace :: "jsstring \<Rightarrow> jsstring \<Rightarrow> jsstring \<Rightarrow> jsstring" where
  "replace s pat repl =
     (case find_first pat [] s of
        None \<Rightarrow> s
      | Some (b, a) \<Rightarrow> b @ get_substitution pat b a repl @ a)"

section \<open>The persistent store\<close>

datatype role = System | User | Assistant

text \<open>A message's content column holds a string or the object \<open>{ text: ... }\<close>.\<close>

datatype msg_content = Text jsstring | TextObject jsstring

text \<open>Rows of \<open>chat_message\<close> and of \<open>user_journey_message\<close>.\<close>

record message =
  m_id :: jsstring
  m_conversation :: jsstring
  m_user_id :: "jsstring option"
  m_role :: role
  m_content :: msg_content
  m_ordinal :: int
  m_created_at :: nat

record user_journey_row =
  uj_id :: jsstring
  uj_user_id :: jsstring
  uj_journey_key :: jsstring
  uj_is_active :: bool

record chat_session_row =
  cs_id :: jsstring
  cs_user_id :: jsstring

record prompt_row =
  p_key :: jsstring
  p_content :: jsstring
  p_is_active :: bool

record journey_row =
  j_key :: jsstring
  j_title :: jsstring
  j_is_active :: bool

record profile_row =
  pr_id :: jsstring
  pr_preferred_name :: "jsstring option"

record db =
  user_journey :: "user_journey_row list"
  chat_session :: "chat_session_row list"
  user_journey_message :: "message list"
  chat_message :: "message list"
  prompts :: "prompt_row list"
  system_prompts :: "prompt_row list"
  journeys :: "journey_row list"
  profiles :: "profile_row list"

text \<open>
  The store operations a handler issues, named after the comments of the source, and what
  can go wrong with one of them: the client returns an error object, or the call throws.
\<close>

datatype dbop =
    VerifyConversation | SaveUserMessage | GetJourneyMeta | GetPrompt | FetchHistory
  | SaveAssistantMessage | GetProfile | CreateSession | CleanupSession
  | FindExistingJourney | CreateJourney | GetJourneyTitle

datatype fault = NoFault | ReturnsError | Throws

datatype 'a res = Data 'a | Err | Threw

text \<open>The values the store assigns to an inserted row.\<close>

record stamp =
  st_id :: jsstring
  st_ordinal :: int
  st_created_at :: nat

text \<open>
  Modelled from the spec: the store is an external collaborator (section 1: per-entity
  select, insert, update and delete), whose schema is not part of the sources. A table is
  the list of its rows in insertion order. A select that is not faulty returns the rows
  matching its filters; \<open>.single()\<close> wants exactly one row, \<open>.maybeSingle()\<close> at most one.
  An insert that is not faulty appends the row, a faulty one leaves the table as it was.
  A delete that is not faulty removes the rows matching its filter.
  \<open>.order("created_at", { ascending: true })\<close> sorts by creation time, keeping insertion
  order among equal times, and \<open>.limit(n)\<close> keeps the first \<open>n\<close> rows of the ordered result.
  Row-level access policies are not modelled: a select sees every row of the table, so the
  ownership checks of the handlers are what keeps callers apart.
\<close>

definition single :: "fault \<Rightarrow> 'a list \<Rightarrow> 'a res" where
  "single f rs =
     (case f of
        Throws \<Rightarrow> Threw
      | ReturnsError \<Rightarrow> Err
      | NoFault \<Rightarrow> (case rs of [r] \<Rightarrow> Data r | _ \<Rightarrow> Err))"

definition maybeSingle :: "fault \<Rightarrow> 'a list \<Rightarrow> 'a option res" where
  "maybeSingle f rs =
     (case f of
        Throws \<Rightarrow> Threw
      | ReturnsError \<Rightarrow> Err
      | NoFault \<Rightarrow> (case rs of [] \<Rightarrow> Data None | [r] \<Rightarrow> Data (Some r) | _ \<Rightarrow> Err))"

definition select_rows :: "fault \<Rightarrow> 'a list \<Rightarrow> 'a list res" where
  "select_rows f rs = (case f of Throws \<Rightarrow> Threw | ReturnsError \<Rightarrow> Err | NoFault \<Rightarrow> Data rs)"

definition insert_row :: "fault \<Rightarrow> 'a \<Rightarrow> 'a list \<Rightarrow> 'a list res" where
  "insert_row f r t = (case f of Throws \<Rightarrow> Threw | ReturnsError \<Rightarrow> Err | NoFault \<Rightarrow> Data (t @ [r]))"

definition delete_rows :: "fault \<Rightarrow> ('a \<Rightarrow> bool) \<Rightarrow> 'a list \<Rightarrow> 'a list" where
  "delete_rows f P t = (case f of NoFault \<Rightarrow> filter (\<lambda>r. \<not> P r) t | _ \<Rightarrow> t)"

definition order_ascending :: "('a \<Rightarrow> nat) \<Rightarrow> 'a list \<Rightarrow> 'a list" where
  "order_ascending k rs = sort_key k rs"

definition limit :: "nat \<Rightarrow> 'a list \<Rightarrow> 'a list" where
  "limit n rs = take n rs"

text \<open>
  The history query of the reply and resume handlers:
  \<open>.eq(<conversation column>, id).order("created_at", { ascending: true }).limit(n)\<close>.
\<close>

definition history_query :: "nat \<Rightarrow> message list \<Rightarrow> jsstring \<Rightarrow> message list" where
  "history_query n table conv =
     limit n (order_ascending m_created_at (filter (\<lambda>m. m_conversation m = conv) table))"

definition new_message :: "stamp \<Rightarrow> jsstring \<Rightarrow> jsstring option \<Rightarrow> role \<Rightarrow> msg_content \<Rightarrow> message" where
  "new_message s conv u r c =
     \<lparr>m_id = st_id s, m_conversation = conv, m_user_id = u, m_role = r, m_content = c,
      m_ordinal = st_ordinal s, m_created_at = st_created_at s\<rparr>"

section \<open>The completion API\<close>

record groq_message =
  g_role :: role
  g_content :: "msg_content option"

text \<open>
  The response body \<open>{ choices: [ { message: { content } } ] }\<close>; every level the source
  reads through \<open>?.\<close> may be absent.
\<close>

datatype groq_reply = ReplyMessage "jsstring option"
datatype groq_choice = Choice "groq_reply option"
datatype groq_data = GroqData "groq_choice list option"

text \<open>
  \<open>GroqThrows\<close>: \<open>fetch\<close> rejects, or the body is not JSON, or it has a shape on which
  the extraction below throws (a \<open>null\<close> body, a content that is not a string).
  \<open>GroqNotOk\<close>: the status is not a success status.
\<close>

datatype groq_outcome = GroqThrows | GroqNotOk | GroqOk groq_data

text \<open>\<open>groqData.choices?.[0]?.message?.content?.trim()\<close>\<close>

fun aiResponse :: "groq_data \<Rightarrow> jsstring option" where
  "aiResponse (GroqData None) = None"
| "aiResponse (GroqData (Some [])) = None"
| "aiResponse (GroqData (Some (Choice None # cs))) = None"
| "aiResponse (GroqData (Some (Choice (Some (ReplyMessage c)) # cs))) = map_option trim c"

section \<open>Requests, responses and the environment of a request\<close>

datatype http_method = OPTIONS | POST | GET | OTHER

text \<open>The properties a handler reads from the JSON body; an absent one is \<open>None\<close>.\<close>

record json_body =
  user_journey_id :: "jsstring option"
  chat_session_id :: "jsstring option"
  journey_key :: "jsstring option"
  content :: "jsstring option"

text \<open>
  \<open>body = None\<close>: \<open>req.json()\<close> rejects, or yields \<open>null\<close>, so that reading a property
  of the body throws. The properties are strings, as the \<open>RequestBody\<close> interfaces of
  the handlers declare them.
\<close>

record request =
  req_method :: http_method
  authorization :: "jsstring option"
  body :: "json_body option"

datatype payload =
    NoBody
  | ErrorBody jsstring
  | JourneyTurn jsstring jsstring role jsstring int nat
  | ChatTurn jsstring jsstring role jsstring int nat
  | ResumeTurn jsstring jsstring role jsstring
  | Greeting jsstring jsstring "jsstring option"
  | ResolvedJourney jsstring jsstring jsstring

record response =
  status :: nat
  payload :: payload

datatype event = Store dbop | Groq "groq_message list"

text \<open>
  What a request does: the response, the store it leaves, and the store operations and
  completion calls it issued, in order.
\<close>

record outcome =
  response :: response
  store :: db
  trace :: "event list"

text \<open>
  Everything a request gets from outside: the identity service, the faults of the store
  operations, the values the store assigns to inserted rows, and the completion API.
\<close>

record env =
  getUser :: "jsstring \<Rightarrow> jsstring option"
  fault :: "dbop \<Rightarrow> fault"
  assigned :: "dbop \<Rightarrow> stamp"
  complete :: "groq_message list \<Rightarrow> groq_outcome"

definition error_response :: "nat \<Rightarrow> jsstring \<Rightarrow> response" where
  "error_response st msg = \<lparr>status = st, payload = ErrorBody msg\<rparr>"

definition finish :: "response \<Rightarrow> db \<Rightarrow> event list \<Rightarrow> outcome" where
  "finish r d t = \<lparr>response = r, store = d, trace = t\<rparr>"

text \<open>The \<open>catch\<close> block around every handler body.\<close>

definition internal_error :: "db \<Rightarrow> event list \<Rightarrow> outcome" where
  "internal_error d t = finish (error_response 500 (js ''Internal server error'')) d t"

text \<open>\<open>after t out\<close>: the events \<open>t\<close> were issued before the rest of the request ran to \<open>out\<close>.\<close>

definition after :: "event list \<Rightarrow> outcome \<Rightarrow> outcome" where
  "after t out = out\<lparr>trace := t @ trace out\<rparr>"

text \<open>
  The preamble every POST handler starts with: preflight, method check, bearer token,
  identity. \<open>Inr userId\<close> when the caller is authenticated.
\<close>

definition bearer_token :: "jsstring option \<Rightarrow> jsstring option" where
  "bearer_token h =
     (case h of
        None \<Rightarrow> None
      | Some a \<Rightarrow> if take 7 a = js ''Bearer '' then Some (drop 7 a) else None)"

definition authenticate :: "env \<Rightarrow> request \<Rightarrow> response + jsstring" where
  "authenticate e req =
     (if req_method req = OPTIONS then Inl \<lparr>status = 204, payload = NoBody\<rparr>
      else if req_method req \<noteq> POST then Inl (error_response 405 (js ''Method not allowed''))
      else case bearer_token (authorization req) of
             None \<Rightarrow> Inl (error_response 401 (js ''Unauthorized''))
           | Some token \<Rightarrow>
               (case getUser e token of
                  None \<Rightarrow> Inl (error_response 401 (js ''Unauthorized''))
                | Some userId \<Rightarrow> Inr userId))"

section \<open>Reply handlers\<close>

text \<open>
  The outbound message list of the reply handlers: the system prompt, then the fetched
  rows mapped to role and content.
\<close>

definition groqMessages :: "jsstring \<Rightarrow> message list \<Rightarrow> groq_message list" where
  "groqMessages systemPrompt dbMessages =
     \<lparr>g_role = System, g_content = Some (Text systemPrompt)\<rparr>
     # map (\<lambda>msg. \<lparr>g_role = m_role msg, g_content = Some (m_content msg)\<rparr>) dbMessages"

subsection \<open>Journey reply handler (llm-journey-chat-handler, first handler of the file)\<close>

definition journey_save_assistant ::
  "env \<Rightarrow> db \<Rightarrow> jsstring \<Rightarrow> jsstring \<Rightarrow> jsstring \<Rightarrow> outcome" where
  "journey_save_assistant e d userId jid text =
     (let s = assigned e SaveAssistantMessage in
      case insert_row (fault e SaveAssistantMessage)
             (new_message s jid (Some userId) Assistant (Text text)) (user_journey_message d) of
        Threw \<Rightarrow> internal_error d [Store SaveAssistantMessage]
      | Err \<Rightarrow>
          finish (error_response 500 (js ''Failed to save message'')) d [Store SaveAssistantMessage]
      | Data ms \<Rightarrow>
          finish \<lparr>status = 200,
                  payload = JourneyTurn jid (st_id s) Assistant text (st_ordinal s) (st_created_at s)\<rparr>
            (d\<lparr>user_journey_message := ms\<rparr>) [Store SaveAssistantMessage])"

definition journey_complete ::
  "env \<Rightarrow> db \<Rightarrow> jsstring \<Rightarrow> jsstring \<Rightarrow> jsstring \<Rightarrow> message list \<Rightarrow> outcome" where
  "journey_complete e d userId jid systemPrompt dbMessages =
     (case complete e (groqMessages systemPrompt dbMessages) of
        GroqThrows \<Rightarrow> internal_error d [Groq (groqMessages systemPrompt dbMessages)]
      | GroqNotOk \<Rightarrow>
          finish (error_response 500 (js ''GROQ API request failed'')) d
            [Groq (groqMessages systemPrompt dbMessages)]
      | GroqOk groqData \<Rightarrow>
          (case required (aiResponse groqData) of
             None \<Rightarrow>
               finish (error_response 500 (js ''GROQ returned empty response'')) d
                 [Groq (groqMessages systemPrompt dbMessages)]
           | Some text \<Rightarrow>
               after [Groq (groqMessages systemPrompt dbMessages)]
                 (journey_save_assistant e d userId jid text)))"

definition journey_fetch_history ::
  "env \<Rightarrow> db \<Rightarrow> jsstring \<Rightarrow> jsstring \<Rightarrow> jsstring \<Rightarrow> outcome" where
  "journey_fetch_history e d userId jid systemPrompt =
     (case select_rows (fault e FetchHistory) (history_query 40 (user_journey_message d) jid) of
        Threw \<Rightarrow> internal_error d [Store FetchHistory]
      | Err \<Rightarrow>
          finish (error_response 500 (js ''Failed to fetch conversation history'')) d
            [Store FetchHistory]
      | Data dbMessages \<Rightarrow>
          after [Store FetchHistory] (journey_complete e d userId jid systemPrompt dbMessages))"

definition journey_get_prompt ::
  "env \<Rightarrow> db \<Rightarrow> jsstring \<Rightarrow> jsstring \<Rightarrow> jsstring \<Rightarrow> outcome" where
  "journey_get_prompt e d userId jid key =
     (case single (fault e GetJourneyMeta)
             (filter (\<lambda>j. j_key j = key \<and> j_is_active j) (journeys d)) of
        Threw \<Rightarrow> internal_error d [Store GetJourneyMeta]
      | _ \<Rightarrow>
          (case single (fault e GetPrompt)
                  (filter (\<lambda>p. p_key p = key \<and> p_is_active p) (prompts d)) of
             Threw \<Rightarrow> internal_error d [Store GetJourneyMeta, Store GetPrompt]
           | Err \<Rightarrow>
               finish (error_response 500 (js ''Prompt not found for journey: '' @ key)) d
                 [Store GetJourneyMeta, Store GetPrompt]
           | Data promptData \<Rightarrow>
               if p_content promptData = []
               then finish (error_response 500 (js ''Prompt not found for journey: '' @ key)) d
                      [Store GetJourneyMeta, Store GetPrompt]
               else after [Store GetJourneyMeta, Store GetPrompt]
                      (journey_fetch_history e d userId jid (p_content promptData))))"

definition journey_save_user ::
  "env \<Rightarrow> db \<Rightarrow> jsstring \<Rightarrow> jsstring \<Rightarrow> jsstring \<Rightarrow> jsstring \<Rightarrow> outcome" where
  "journey_save_user e d userId jid key c =
     (case insert_row (fault e SaveUserMessage)
             (new_message (assigned e SaveUserMessage) jid (Some userId) User (Text c))
             (user_journey_message d) of
        Threw \<Rightarrow> internal_error d [Store SaveUserMessage]
      | Err \<Rightarrow>
          finish (error_response 500 (js ''Failed to save user message'')) d [Store SaveUserMessage]
      | Data ms \<Rightarrow>
          after [Store SaveUserMessage]
            (journey_get_prompt e (d\<lparr>user_journey_message := ms\<rparr>) userId jid key))"

definition llm_journey_chat_handler :: "env \<Rightarrow> db \<Rightarrow> request \<Rightarrow> outcome" where
  "llm_journey_chat_handler e d req =
     (case authenticate e req of
        Inl r \<Rightarrow> finish r d []
      | Inr userId \<Rightarrow>
          (case body req of
             None \<Rightarrow> internal_error d []
           | Some b \<Rightarrow>
               (case (required (user_journey_id b), required (content b)) of
                  (Some jid, Some c) \<Rightarrow>
                    (case single (fault e VerifyConversation)
                            (filter (\<lambda>j. uj_id j = jid) (user_journey d)) of
                       Threw \<Rightarrow> internal_error d [Store VerifyConversation]
                     | Err \<Rightarrow>
                         finish (error_response 404 (js ''Journey not found or access denied''))
                           d [Store VerifyConversation]
                     | Data journeyData \<Rightarrow>
                         if uj_user_id journeyData \<noteq> userId
                         then finish (error_response 404 (js ''Journey not found or access denied''))
                                d [Store VerifyConversation]
                         else after [Store VerifyConversation]
                                (journey_save_user e d userId jid (uj_journey_key journeyData) c))
                | _ \<Rightarrow> finish (error_response 400 (js ''Missing required fields'')) d [])))"

subsection \<open>Chat reply handler (second handler of the same file)\<close>

definition chat_save_assistant ::
  "env \<Rightarrow> db \<Rightarrow> jsstring \<Rightarrow> jsstring \<Rightarrow> jsstring \<Rightarrow> outcome" where
  "chat_save_assistant e d userId sid text =
     (let s = assigned e SaveAssistantMessage in
      case insert_row (fault e SaveAssistantMessage)
             (new_message s sid (Some userId) Assistant (Text text)) (chat_message d) of
        Threw \<Rightarrow> internal_error d [Store SaveAssistantMessage]
      | Err \<Rightarrow>
          finish (error_response 500 (js ''Failed to save message'')) d [Store SaveAssistantMessage]
      | Data ms \<Rightarrow>
          finish \<lparr>status = 200,
                  payload = ChatTurn sid (st_id s) Assistant text (st_ordinal s) (st_created_at s)\<rparr>
            (d\<lparr>chat_message := ms\<rparr>) [Store SaveAssistantMessage])"

definition chat_complete ::
  "env \<Rightarrow> db \<Rightarrow> jsstring \<Rightarrow> jsstring \<Rightarrow> jsstring \<Rightarrow> message list \<Rightarrow> outcome" where
  "chat_complete e d userId sid systemPrompt dbMessages =
     (case complete e (groqMessages systemPrompt dbMessages) of
        GroqThrows \<Rightarrow> internal_error d [Groq (groqMessages systemPrompt dbMessages)]
      | GroqNotOk \<Rightarrow>
          finish (error_response 500 (js ''GROQ API request failed'')) d
            [Groq (groqMessages systemPrompt dbMessages)]
      | GroqOk groqData \<Rightarrow>
          (case required (aiResponse groqData) of
             None \<Rightarrow>
               finish (error_response 500 (js ''GROQ returned empty response'')) d
                 [Groq (groqMessages systemPrompt dbMessages)]
           | Some text \<Rightarrow>
               after [Groq (groqMessages systemPrompt dbMessages)]
                 (chat_save_assistant e d userId sid text)))"

definition chat_fetch_history ::
  "env \<Rightarrow> db \<Rightarrow> jsstring \<Rightarrow> jsstring \<Rightarrow> jsstring \<Rightarrow> outcome" where
  "chat_fetch_history e d userId sid systemPrompt =
     (case select_rows (fault e FetchHistory) (history_query 40 (chat_message d) sid) of
        Threw \<Rightarrow> internal_error d [Store FetchHistory]
      | Err \<Rightarrow>
          finish (error_response 500 (js ''Failed to fetch conversation history'')) d
            [Store FetchHistory]
      | Data dbMessages \<Rightarrow>
          after [Store FetchHistory] (chat_complete e d userId sid systemPrompt dbMessages))"

definition chat_get_prompt :: "env \<Rightarrow> db \<Rightarrow> jsstring \<Rightarrow> jsstring \<Rightarrow> outcome" where
  "chat_get_prompt e d userId sid =
     (case single (fault e GetPrompt)
             (filter (\<lambda>p. p_key p = js ''system_prompt'' \<and> p_is_active p) (prompts d)) of
        Threw \<Rightarrow> internal_error d [Store GetPrompt]
      | Err \<Rightarrow> finish (error_response 500 (js ''System prompt not found'')) d [Store GetPrompt]
      | Data promptData \<Rightarrow>
          if p_content promptData = []
          then finish (error_response 500 (js ''System prompt not found'')) d [Store GetPrompt]
          else after [Store GetPrompt]
                 (chat_fetch_history e d userId sid (p_content promptData)))"

definition chat_save_user ::
  "env \<Rightarrow> db \<Rightarrow> jsstring \<Rightarrow> jsstring \<Rightarrow> jsstring \<Rightarrow> outcome" where
  "chat_save_user e d userId sid c =
     (case insert_row (fault e SaveUserMessage)
             (new_message (assigned e SaveUserMessage) sid (Some userId) User (Text c))
             (chat_message d) of
        Threw \<Rightarrow> internal_error d [Store SaveUserMessage]
      | Err \<Rightarrow>
          finish (error_response 500 (js ''Failed to save user message'')) d [Store SaveUserMessage]
      | Data ms \<Rightarrow>
          after [Store SaveUserMessage] (chat_get_prompt e (d\<lparr>chat_message := ms\<rparr>) userId sid))"

definition llm_chat_handler :: "env \<Rightarrow> db \<Rightarrow> request \<Rightarrow> outcome" where
  "llm_chat_handler e d req =
     (case authenticate e req of
        Inl r \<Rightarrow> finish r d []
      | Inr userId \<Rightarrow>
          (case body req of
             None \<Rightarrow> internal_error d []
           | Some b \<Rightarrow>
               (case (required (chat_session_id b), required (content b)) of
                  (Some sid, Some c) \<Rightarrow>
                    (case single (fault e VerifyConversation)
                            (filter (\<lambda>s. cs_id s = sid) (chat_session d)) of
                       Threw \<Rightarrow> internal_error d [Store VerifyConversation]
                     | Err \<Rightarrow>
                         finish (error_response 404 (js ''Chat session not found or access denied''))
                           d [Store VerifyConversation]
                     | Data sessionData \<Rightarrow>
                         if cs_user_id sessionData \<noteq> userId
                         then finish (error_response 404 (js ''Chat session not found or access denied''))
                                d [Store VerifyConversation]
                         else after [Store VerifyConversation]
                                (chat_save_user e d userId sid c))
                | _ \<Rightarrow> finish (error_response 400 (js ''Missing required fields'')) d [])))"

section \<open>Resume-greeting handler\<close>

definition MESSAGE_HISTORY_LIMIT :: nat where
  "MESSAGE_HISTORY_LIMIT = 40"

definition SYSTEM_PROMPT_KEY :: jsstring where
  "SYSTEM_PROMPT_KEY = js ''system_prompt''"

definition GREETING_MESSAGE_TEMPLATE :: jsstring where
  "GREETING_MESSAGE_TEMPLATE =
     js ''I am back in the chat. Please pick up the conversation where we left off and greet me warmly using my name once. My name is {name}''"

definition DEFAULT_NAME_FALLBACK :: jsstring where
  "DEFAULT_NAME_FALLBACK = js ''there''"

text \<open>\<open>preferredName || fallback\<close>\<close>

definition name_or :: "jsstring option \<Rightarrow> jsstring \<Rightarrow> jsstring" where
  "name_or preferredName fallback = (case required preferredName of None \<Rightarrow> fallback | Some n \<Rightarrow> n)"

text \<open>
  The profile lookup sits in its own \<open>try\<close>: a thrown error and a returned error both
  leave the preferred name \<open>null\<close>.
\<close>

definition get_preferred_name :: "env \<Rightarrow> db \<Rightarrow> jsstring \<Rightarrow> jsstring option" where
  "get_preferred_name e d userId =
     (case maybeSingle (fault e GetProfile) (filter (\<lambda>p. pr_id p = userId) (profiles d)) of
        Data (Some profile) \<Rightarrow> pr_preferred_name profile
      | _ \<Rightarrow> None)"

definition resume_groqMessages ::
  "jsstring \<Rightarrow> message list \<Rightarrow> jsstring option \<Rightarrow> groq_message list" where
  "resume_groqMessages systemPrompt dbMessages preferredName =
     \<lparr>g_role = System, g_content = Some (Text systemPrompt)\<rparr>
     # map (\<lambda>msg. \<lparr>g_role = m_role msg, g_content = Some (m_content msg)\<rparr>) dbMessages
     @ [\<lparr>g_role = User,
         g_content = Some (Text (replace GREETING_MESSAGE_TEMPLATE (js ''{name}'')
                                   (name_or preferredName DEFAULT_NAME_FALLBACK)))\<rparr>]"

text \<open>\<open>msgErr || !messageData?.id\<close> also rejects an empty id, after the row was inserted.\<close>

definition resume_save_assistant :: "env \<Rightarrow> db \<Rightarrow> jsstring \<Rightarrow> jsstring \<Rightarrow> outcome" where
  "resume_save_assistant e d sid text =
     (let s = assigned e SaveAssistantMessage in
      case insert_row (fault e SaveAssistantMessage)
             (new_message s sid None Assistant (Text text)) (chat_message d) of
        Threw \<Rightarrow> internal_error d [Store SaveAssistantMessage]
      | Err \<Rightarrow>
          finish (error_response 500 (js ''Failed to save message'')) d [Store SaveAssistantMessage]
      | Data ms \<Rightarrow>
          if st_id s = []
          then finish (error_response 500 (js ''Failed to save message''))
                 (d\<lparr>chat_message := ms\<rparr>) [Store SaveAssistantMessage]
          else finish \<lparr>status = 200, payload = ResumeTurn sid (st_id s) Assistant text\<rparr>
                 (d\<lparr>chat_message := ms\<rparr>) [Store SaveAssistantMessage])"

definition resume_complete :: "env \<Rightarrow> db \<Rightarrow> jsstring \<Rightarrow> groq_message list \<Rightarrow> outcome" where
  "resume_complete e d sid messages =
     (case complete e messages of
        GroqThrows \<Rightarrow> internal_error d [Groq messages]
      | GroqNotOk \<Rightarrow> finish (error_response 500 (js ''GROQ API request failed'')) d [Groq messages]
      | GroqOk groqData \<Rightarrow>
          (case required (aiResponse groqData) of
             None \<Rightarrow>
               finish (error_response 500 (js ''GROQ returned empty response'')) d [Groq messages]
           | Some text \<Rightarrow> after [Groq messages] (resume_save_assistant e d sid text)))"

definition resume_fetch_history ::
  "env \<Rightarrow> db \<Rightarrow> jsstring \<Rightarrow> jsstring option \<Rightarrow> jsstring \<Rightarrow> outcome" where
  "resume_fetch_history e d sid preferredName systemPrompt =
     (case select_rows (fault e FetchHistory)
             (history_query MESSAGE_HISTORY_LIMIT (chat_message d) sid) of
        Threw \<Rightarrow> internal_error d [Store FetchHistory]
      | Err \<Rightarrow>
          finish (error_response 500 (js ''Failed to fetch conversation history'')) d
            [Store FetchHistory]
      | Data dbMessages \<Rightarrow>
          after [Store FetchHistory]
            (resume_complete e d sid (resume_groqMessages systemPrompt dbMessages preferredName)))"

definition resume_get_prompt :: "env \<Rightarrow> db \<Rightarrow> jsstring \<Rightarrow> jsstring option \<Rightarrow> outcome" where
  "resume_get_prompt e d sid preferredName =
     (case single (fault e GetPrompt)
             (filter (\<lambda>p. p_key p = SYSTEM_PROMPT_KEY \<and> p_is_active p) (prompts d)) of
        Threw \<Rightarrow> internal_error d [Store GetPrompt]
      | Err \<Rightarrow> finish (error_response 500 (js ''System prompt not found'')) d [Store GetPrompt]
      | Data promptData \<Rightarrow>
          if p_content promptData = []
          then finish (error_response 500 (js ''System prompt not found'')) d [Store GetPrompt]
          else after [Store GetPrompt]
                 (resume_fetch_history e d sid preferredName (p_content promptData)))"

definition resume_greeting_handler :: "env \<Rightarrow> db \<Rightarrow> request \<Rightarrow> outcome" where
  "resume_greeting_handler e d req =
     (case authenticate e req of
        Inl r \<Rightarrow> finish r d []
      | Inr userId \<Rightarrow>
          (case body req of
             None \<Rightarrow> internal_error d []
           | Some b \<Rightarrow>
               (case required (chat_session_id b) of
                  None \<Rightarrow> finish (error_response 400 (js ''Missing chat_session_id'')) d []
                | Some sid \<Rightarrow>
                    (case single (fault e VerifyConversation)
                            (filter (\<lambda>s. cs_id s = sid) (chat_session d)) of
                       Threw \<Rightarrow> internal_error d [Store VerifyConversation]
                     | Err \<Rightarrow>
                         finish (error_response 400 (js ''Invalid chat session''))
                           d [Store VerifyConversation]
                     | Data sessionData \<Rightarrow>
                         if cs_user_id sessionData \<noteq> userId
                         then finish (error_response 400 (js ''Invalid chat session''))
                                d [Store VerifyConversation]
                         else after [Store VerifyConversation, Store GetProfile]
                                (resume_get_prompt e d sid (get_preferred_name e d userId))))))"

section \<open>New-chat greeting handlers\<close>

text \<open>
  Both greeting handlers end alike: the assistant message is inserted, and when that
  insert returns an error the session created by this request is deleted inside a
  \<open>try\<close> whose \<open>catch\<close> is empty, before the error response is returned. The result of
  the delete is not read.
\<close>

definition greeting_insert_message ::
  "env \<Rightarrow> db \<Rightarrow> jsstring \<Rightarrow> jsstring option \<Rightarrow> jsstring \<Rightarrow> outcome" where
  "greeting_insert_message e d sessionId preferredName messageText =
     (case insert_row (fault e SaveAssistantMessage)
             (new_message (assigned e SaveAssistantMessage) sessionId None Assistant
                (TextObject messageText))
             (chat_message d) of
        Threw \<Rightarrow> internal_error d [Store SaveAssistantMessage]
      | Err \<Rightarrow>
          finish (error_response 500 (js ''Failed to write message''))
            (d\<lparr>chat_session :=
                 delete_rows (fault e CleanupSession) (\<lambda>s. cs_id s = sessionId) (chat_session d)\<rparr>)
            [Store SaveAssistantMessage, Store CleanupSession]
      | Data ms \<Rightarrow>
          finish \<lparr>status = 201, payload = Greeting sessionId messageText preferredName\<rparr>
            (d\<lparr>chat_message := ms\<rparr>) [Store SaveAssistantMessage])"

text \<open>
  Creating the session: \<open>sessionErr || !newSession?.id\<close> also rejects an empty id, after
  the row was inserted. \<open>continue\<close> is the rest of the handler, run on the store that
  holds the new session.
\<close>

definition create_session ::
  "env \<Rightarrow> db \<Rightarrow> jsstring \<Rightarrow> (db \<Rightarrow> jsstring \<Rightarrow> outcome) \<Rightarrow> outcome" where
  "create_session e d userId continue =
     (let s = assigned e CreateSession in
      case insert_row (fault e CreateSession) \<lparr>cs_id = st_id s, cs_user_id = userId\<rparr>
             (chat_session d) of
        Threw \<Rightarrow> internal_error d [Store GetProfile, Store CreateSession]
      | Err \<Rightarrow>
          finish (error_response 500 (js ''Failed to create session'')) d
            [Store GetProfile, Store CreateSession]
      | Data ss \<Rightarrow>
          if st_id s = []
          then finish (error_response 500 (js ''Failed to create session''))
                 (d\<lparr>chat_session := ss\<rparr>) [Store GetProfile, Store CreateSession]
          else after [Store GetProfile, Store CreateSession]
                 (continue (d\<lparr>chat_session := ss\<rparr>) (st_id s)))"

subsection \<open>Current handler (supabase/functions/new-chat-greeting-function)\<close>

definition greeting_complete ::
  "env \<Rightarrow> db \<Rightarrow> jsstring \<Rightarrow> jsstring option \<Rightarrow> jsstring \<Rightarrow> outcome" where
  "greeting_complete e d sessionId preferredName systemPrompt =
     (let messages =
            [\<lparr>g_role = System, g_content = Some (Text systemPrompt)\<rparr>,
             \<lparr>g_role = User,
              g_content = Some (Text (js ''Start the session by greeting me warmly using my name once. Never say nice to meet you or something similar. My name is ''
                                      @ name_or preferredName (js ''there'')))\<rparr>]
      in case complete e messages of
           GroqThrows \<Rightarrow> internal_error d [Groq messages]
         | GroqNotOk \<Rightarrow>
             finish (error_response 500 (js ''GROQ API request failed'')) d [Groq messages]
         | GroqOk groqData \<Rightarrow>
             (case required (aiResponse groqData) of
                None \<Rightarrow>
                  finish (error_response 500 (js ''GROQ returned empty response'')) d [Groq messages]
              | Some text \<Rightarrow>
                  after [Groq messages] (greeting_insert_message e d sessionId preferredName text)))"

definition greeting_get_prompt ::
  "env \<Rightarrow> db \<Rightarrow> jsstring \<Rightarrow> jsstring option \<Rightarrow> outcome" where
  "greeting_get_prompt e d sessionId preferredName =
     (case single (fault e GetPrompt)
             (filter (\<lambda>p. p_key p = js ''system_prompt'' \<and> p_is_active p) (prompts d)) of
        Threw \<Rightarrow> internal_error d [Store GetPrompt]
      | Err \<Rightarrow> finish (error_response 500 (js ''System prompt not found'')) d [Store GetPrompt]
      | Data promptData \<Rightarrow>
          if p_content promptData = []
          then finish (error_response 500 (js ''System prompt not found'')) d [Store GetPrompt]
          else after [Store GetPrompt]
                 (greeting_complete e d sessionId preferredName (p_content promptData)))"

definition new_chat_greeting_function :: "env \<Rightarrow> db \<Rightarrow> request \<Rightarrow> outcome" where
  "new_chat_greeting_function e d req =
     (case authenticate e req of
        Inl r \<Rightarrow> finish r d []
      | Inr userId \<Rightarrow>
          create_session e d userId
            (\<lambda>d' sessionId. greeting_get_prompt e d' sessionId (get_preferred_name e d userId)))"

subsection \<open>Legacy handler (functions/new-chat-greeting-function)\<close>

text \<open>
  The prompt lookup and the completion call sit in one \<open>try\<close> whose \<open>catch\<close> keeps the
  fallback text. \<open>legacy_message_text\<close> is the value of \<open>messageText\<close> after that block,
  with the events the block issued.
\<close>

definition legacy_fallback :: jsstring where
  "legacy_fallback = js ''Hello! How can I help today?''"

definition legacy_full_prompt :: "jsstring \<Rightarrow> jsstring option \<Rightarrow> jsstring" where
  "legacy_full_prompt promptContent preferredName =
     promptContent @ [0xA, 0xA]
     @ (case required preferredName of
          Some n \<Rightarrow> js ''User's preferred name: '' @ n
        | None \<Rightarrow> js ''No preferred name available'')"

definition legacy_messages :: "jsstring \<Rightarrow> jsstring option \<Rightarrow> groq_message list" where
  "legacy_messages promptContent preferredName =
     [\<lparr>g_role = System, g_content = Some (Text (legacy_full_prompt promptContent preferredName))\<rparr>]"

definition legacy_message_text ::
  "env \<Rightarrow> db \<Rightarrow> jsstring option \<Rightarrow> jsstring \<times> event list" where
  "legacy_message_text e d preferredName =
     (case single (fault e GetPrompt)
             (filter (\<lambda>p. p_key p = js ''greeting_new'' \<and> p_is_active p) (system_prompts d)) of
        Data promptData \<Rightarrow>
          if p_content promptData = [] then (legacy_fallback, [Store GetPrompt])
          else
            (case complete e (legacy_messages (p_content promptData) preferredName) of
               GroqOk groqData \<Rightarrow>
                 (case required (aiResponse groqData) of
                    Some text \<Rightarrow> text
                  | None \<Rightarrow> legacy_fallback)
             | _ \<Rightarrow> legacy_fallback,
             [Store GetPrompt, Groq (legacy_messages (p_content promptData) preferredName)])
      | _ \<Rightarrow> (legacy_fallback, [Store GetPrompt]))"

definition legacy_new_chat_greeting_function :: "env \<Rightarrow> db \<Rightarrow> request \<Rightarrow> outcome" where
  "legacy_new_chat_greeting_function e d req =
     (case authenticate e req of
        Inl r \<Rightarrow> finish r d []
      | Inr userId \<Rightarrow>
          create_session e d userId
            (\<lambda>d' sessionId.
               after (snd (legacy_message_text e d' (get_preferred_name e d userId)))
                 (greeting_insert_message e d' sessionId (get_preferred_name e d userId)
                    (fst (legacy_message_text e d' (get_preferred_name e d userId))))))"

section \<open>Journey kickoff handler (second handler of list-journeys/index.ts)\<close>

definition kickoff_insert_message ::
  "env \<Rightarrow> db \<Rightarrow> jsstring \<Rightarrow> jsstring \<Rightarrow> jsstring \<Rightarrow> outcome" where
  "kickoff_insert_message e d userId jid text =
     (let s = assigned e SaveAssistantMessage in
      case insert_row (fault e SaveAssistantMessage)
             (new_message s jid (Some userId) Assistant (Text text)) (user_journey_message d) of
        Threw \<Rightarrow> internal_error d [Store SaveAssistantMessage]
      | Err \<Rightarrow>
          finish (error_response 500 (js ''Failed to write message'')) d [Store SaveAssistantMessage]
      | Data ms \<Rightarrow>
          finish \<lparr>status = 201,
                  payload = JourneyTurn jid (st_id s) Assistant text (st_ordinal s) (st_created_at s)\<rparr>
            (d\<lparr>user_journey_message := ms\<rparr>) [Store SaveAssistantMessage])"

text \<open>
  The user turn is \<open>{ role: "user", content: userPrompt?.content }\<close>: its content is
  absent when no row with the key \<open><journey_key>_user\<close> was returned.
\<close>

definition kickoff_messages :: "jsstring \<Rightarrow> jsstring option \<Rightarrow> groq_message list" where
  "kickoff_messages journeyPrompt userPrompt =
     [\<lparr>g_role = System, g_content = Some (Text journeyPrompt)\<rparr>,
      \<lparr>g_role = User, g_content = map_option Text userPrompt\<rparr>]"

definition kickoff_complete ::
  "env \<Rightarrow> db \<Rightarrow> jsstring \<Rightarrow> jsstring \<Rightarrow> jsstring \<Rightarrow> jsstring option \<Rightarrow> outcome" where
  "kickoff_complete e d userId jid journeyPrompt userPrompt =
     (case complete e (kickoff_messages journeyPrompt userPrompt) of
        GroqThrows \<Rightarrow> internal_error d [Groq (kickoff_messages journeyPrompt userPrompt)]
      | GroqNotOk \<Rightarrow>
          finish (error_response 500 (js ''GROQ API request failed'')) d
            [Groq (kickoff_messages journeyPrompt userPrompt)]
      | GroqOk groqData \<Rightarrow>
          (case required (aiResponse groqData) of
             None \<Rightarrow>
               finish (error_response 500 (js ''GROQ returned empty response'')) d
                 [Groq (kickoff_messages journeyPrompt userPrompt)]
           | Some text \<Rightarrow>
               after [Groq (kickoff_messages journeyPrompt userPrompt)]
                 (kickoff_insert_message e d userId jid text)))"

definition kickoff_get_prompts ::
  "env \<Rightarrow> db \<Rightarrow> jsstring \<Rightarrow> jsstring \<Rightarrow> jsstring \<Rightarrow> outcome" where
  "kickoff_get_prompts e d userId jid key =
     (case single (fault e GetJourneyMeta)
             (filter (\<lambda>j. j_key j = key \<and> j_is_active j) (journeys d)) of
        Threw \<Rightarrow> internal_error d [Store GetJourneyMeta]
      | _ \<Rightarrow>
          (case select_rows (fault e GetPrompt)
                  (filter (\<lambda>p. (p_key p = key \<or> p_key p = key @ js ''_user'') \<and> p_is_active p)
                     (prompts d)) of
             Threw \<Rightarrow> internal_error d [Store GetJourneyMeta, Store GetPrompt]
           | Err \<Rightarrow>
               finish (error_response 500 (js ''Prompts not found for journey: '' @ key)) d
                 [Store GetJourneyMeta, Store GetPrompt]
           | Data promptsData \<Rightarrow>
               if promptsData = []
               then finish (error_response 500 (js ''Prompts not found for journey: '' @ key)) d
                      [Store GetJourneyMeta, Store GetPrompt]
               else
                 (case find (\<lambda>p. p_key p = key) promptsData of
                    None \<Rightarrow>
                      finish (error_response 500 (js ''Journey prompt not found for: '' @ key)) d
                        [Store GetJourneyMeta, Store GetPrompt]
                  | Some journeyPrompt \<Rightarrow>
                      if p_content journeyPrompt = []
                      then finish (error_response 500 (js ''Journey prompt not found for: '' @ key)) d
                             [Store GetJourneyMeta, Store GetPrompt]
                      else after [Store GetJourneyMeta, Store GetPrompt]
                             (kickoff_complete e d userId jid (p_content journeyPrompt)
                                (map_option p_content
                                   (find (\<lambda>p. p_key p = key @ js ''_user'') promptsData))))))"

definition journey_kickoff_handler :: "env \<Rightarrow> db \<Rightarrow> request \<Rightarrow> outcome" where
  "journey_kickoff_handler e d req =
     (case authenticate e req of
        Inl r \<Rightarrow> finish r d []
      | Inr userId \<Rightarrow>
          (case body req of
             None \<Rightarrow> internal_error d []
           | Some b \<Rightarrow>
               (case required (user_journey_id b) of
                  None \<Rightarrow> finish (error_response 400 (js ''Missing required fields'')) d []
                | Some jid \<Rightarrow>
                    (case single (fault e VerifyConversation)
                            (filter (\<lambda>j. uj_id j = jid) (user_journey d)) of
                       Threw \<Rightarrow> internal_error d [Store VerifyConversation]
                     | Err \<Rightarrow>
                         finish (error_response 404 (js ''Journey not found or access denied''))
                           d [Store VerifyConversation]
                     | Data journeyData \<Rightarrow>
                         if uj_user_id journeyData \<noteq> userId
                         then finish (error_response 404 (js ''Journey not found or access denied''))
                                d [Store VerifyConversation]
                         else after [Store VerifyConversation, Store GetProfile]
                                (kickoff_get_prompts e d userId jid (uj_journey_key journeyData))))))"

section \<open>Resolve-or-create journey handler (get-my-user-journey-id-by-key)\<close>

definition resolve_get_title :: "env \<Rightarrow> db \<Rightarrow> jsstring \<Rightarrow> jsstring \<Rightarrow> outcome" where
  "resolve_get_title e d key userJourneyId =
     (case single (fault e GetJourneyTitle)
             (filter (\<lambda>j. j_key j = key \<and> j_is_active j) (journeys d)) of
        Threw \<Rightarrow> internal_error d [Store GetJourneyTitle]
      | Err \<Rightarrow> finish (error_response 404 (js ''Journey not found'')) d [Store GetJourneyTitle]
      | Data journeyData \<Rightarrow>
          finish \<lparr>status = 200, payload = ResolvedJourney userJourneyId key (j_title journeyData)\<rparr>
            d [Store GetJourneyTitle])"

definition get_my_user_journey_id_by_key :: "env \<Rightarrow> db \<Rightarrow> request \<Rightarrow> outcome" where
  "get_my_user_journey_id_by_key e d req =
     (case authenticate e req of
        Inl r \<Rightarrow> finish r d []
      | Inr userId \<Rightarrow>
          (case body req of
             None \<Rightarrow> internal_error d []
           | Some b \<Rightarrow>
               (case required (journey_key b) of
                  None \<Rightarrow> finish (error_response 400 (js ''Missing required fields'')) d []
                | Some key \<Rightarrow>
                    (case single (fault e FindExistingJourney)
                            (filter (\<lambda>j. uj_user_id j = userId \<and> uj_journey_key j = key
                                          \<and> uj_is_active j)
                               (user_journey d)) of
                       Threw \<Rightarrow> internal_error d [Store FindExistingJourney]
                     | Data existingJourney \<Rightarrow>
                         after [Store FindExistingJourney]
                           (resolve_get_title e d key (uj_id existingJourney))
                     | Err \<Rightarrow>
                         (case insert_row (fault e CreateJourney)
                                 \<lparr>uj_id = st_id (assigned e CreateJourney), uj_user_id = userId,
                                  uj_journey_key = key, uj_is_active = True\<rparr>
                                 (user_journey d) of
                            Threw \<Rightarrow> internal_error d [Store FindExistingJourney, Store CreateJourney]
                          | Err \<Rightarrow>
                              finish (error_response 500 (js ''Failed to create journey'')) d
                                [Store FindExistingJourney, Store CreateJourney]
                          | Data rows \<Rightarrow>
                              after [Store FindExistingJourney, Store CreateJourney]
                                (resolve_get_title e (d\<lparr>user_journey := rows\<rparr>) key
                                   (st_id (assigned e CreateJourney))))))))"

section \<open>An example store, environment and request\<close>

text \<open>
  Concrete inputs on which the theorems below are instantiated. Alice owns journey \<open>j1\<close>
  and session \<open>s1\<close>, Bob owns \<open>j2\<close> and \<open>s2\<close>. Each of Alice's conversations holds
  \<open>n\<close> earlier messages, created at the times \<open>1, ..., n\<close> with the ordinals
  \<open>1, ..., n\<close>; the store stamps the user turn of a request with 41 and its assistant turn
  with 42.
\<close>

definition alice :: jsstring where
  "alice = js ''alice''"

definition bob :: jsstring where
  "bob = js ''bob''"

definition numbered_message :: "jsstring \<Rightarrow> nat \<Rightarrow> message" where
  "numbered_message conv i =
     \<lparr>m_id = [of_nat i], m_conversation = conv, m_user_id = Some alice,
      m_role = (if even i then Assistant else User), m_content = Text [of_nat i],
      m_ordinal = int i, m_created_at = i\<rparr>"

definition example_db :: "nat \<Rightarrow> db" where
  "example_db n =
     \<lparr>user_journey =
        [\<lparr>uj_id = js ''j1'', uj_user_id = alice, uj_journey_key = js ''calm'', uj_is_active = True\<rparr>,
         \<lparr>uj_id = js ''j2'', uj_user_id = bob, uj_journey_key = js ''calm'', uj_is_active = True\<rparr>],
      chat_session =
        [\<lparr>cs_id = js ''s1'', cs_user_id = alice\<rparr>, \<lparr>cs_id = js ''s2'', cs_user_id = bob\<rparr>],
      user_journey_message = map (numbered_message (js ''j1'')) [1..<Suc n],
      chat_message = map (numbered_message (js ''s1'')) [1..<Suc n],
      prompts =
        [\<lparr>p_key = js ''calm'', p_content = js ''Be calm'', p_is_active = True\<rparr>,
         \<lparr>p_key = js ''system_prompt'', p_content = js ''Be kind'', p_is_active = True\<rparr>],
      system_prompts = [],
      journeys = [\<lparr>j_key = js ''calm'', j_title = js ''Calm'', j_is_active = True\<rparr>],
      profiles = [\<lparr>pr_id = alice, pr_preferred_name = Some (js ''Al'')\<rparr>]\<rparr>"

definition reply_text :: "jsstring \<Rightarrow> groq_outcome" where
  "reply_text s = GroqOk (GroqData (Some [Choice (Some (ReplyMessage (Some s)))]))"

definition example_env :: "(dbop \<Rightarrow> fault) \<Rightarrow> groq_outcome \<Rightarrow> env" where
  "example_env faults answer =
     \<lparr>getUser = (\<lambda>token. if token = js ''alice-token'' then Some alice else None),
      fault = faults,
      assigned =
        (\<lambda>op. if op = SaveAssistantMessage
              then \<lparr>st_id = js ''row-42'', st_ordinal = 42, st_created_at = 42\<rparr>
              else \<lparr>st_id = js ''row-41'', st_ordinal = 41, st_created_at = 41\<rparr>),
      complete = (\<lambda>messages. answer)\<rparr>"

definition no_faults :: "dbop \<Rightarrow> fault" where
  "no_faults op = NoFault"

definition alice_request :: "jsstring \<Rightarrow> jsstring \<Rightarrow> jsstring \<Rightarrow> request" where
  "alice_request journey session key =
     \<lparr>req_method = POST, authorization = Some (js ''Bearer alice-token''),
      body = Some \<lparr>user_journey_id = Some journey, chat_session_id = Some session,
                   journey_key = Some key, content = Some (js ''newest'')\<rparr>\<rparr>"

section \<open>Basic facts\<close>

lemma after_simps [simp]:
  "trace (after t out) = t @ trace out" "store (after t out) = store out"
  "response (after t out) = response out"
  by (simp_all add: after_def)

lemma finish_simps [simp]:
  "trace (finish r d t) = t" "store (finish r d t) = d" "response (finish r d t) = r"
  by (simp_all add: finish_def)

lemma internal_error_simps [simp]:
  "trace (internal_error d t) = t" "store (internal_error d t) = d"
  "response (internal_error d t) = error_response 500 (js ''Internal server error'')"
  by (simp_all add: internal_error_def)

lemma status_error_response [simp]: "status (error_response n m) = n"
  by (simp add: error_response_def)

lemma single_Data: "single f rs = Data r \<Longrightarrow> rs = [r]"
  by (auto simp: single_def split: fault.splits list.splits)

lemma single_Nil: "f \<noteq> Throws \<Longrightarrow> single f [] = Err"
  by (cases f) (simp_all add: single_def)

lemma single_not_Throws:
  "f \<noteq> Throws \<Longrightarrow> single f rs = Err \<or> (\<exists>r. rs = [r] \<and> single f rs = Data r)"
  by (auto simp: single_def split: fault.splits list.splits)

lemma filter_singleton: "filter P xs = [x] \<Longrightarrow> x \<in> set xs \<and> P x"
  by (induction xs) (auto split: if_splits)

lemma filter_none: "(\<forall>x\<in>set xs. \<not> P x) \<Longrightarrow> filter P xs = []"
  by (induction xs) auto

lemma find_filter: "find P (filter Q xs) = find (\<lambda>x. Q x \<and> P x) xs"
  by (induction xs) auto

lemma insert_row_Data: "insert_row f r t = Data t' \<Longrightarrow> f = NoFault \<and> t' = t @ [r]"
  by (auto simp: insert_row_def split: fault.splits)

lemma insert_row_NoFault [simp]: "insert_row NoFault r t = Data (t @ [r])"
  by (simp add: insert_row_def)

text \<open>
  A lookup of a conversation by id that does not throw either fails or returns a row; when
  no row with that id belongs to the caller, the row it returns is someone else's.
\<close>

lemma single_foreign:
  assumes "f \<noteq> Throws" and "\<forall>r\<in>set rs. P r \<longrightarrow> owner r \<noteq> caller"
  shows "single f (filter P rs) = Err
         \<or> (\<exists>r. single f (filter P rs) = Data r \<and> owner r \<noteq> caller)"
proof -
  from single_not_Throws[OF assms(1), of "filter P rs"] show ?thesis
  proof
    assume "single f (filter P rs) = Err"
    then show ?thesis by simp
  next
    assume "\<exists>r. filter P rs = [r] \<and> single f (filter P rs) = Data r"
    then obtain r where r: "filter P rs = [r]" "single f (filter P rs) = Data r"
      by blast
    from filter_singleton[OF r(1)] assms(2) have "owner r \<noteq> caller"
      by blast
    with r(2) show ?thesis by blast
  qed
qed

lemmas journey_defs = llm_journey_chat_handler_def journey_save_user_def journey_get_prompt_def
  journey_fetch_history_def journey_complete_def journey_save_assistant_def

lemmas chat_defs = llm_chat_handler_def chat_save_user_def chat_get_prompt_def
  chat_fetch_history_def chat_complete_def chat_save_assistant_def

lemmas resume_defs = resume_greeting_handler_def resume_get_prompt_def resume_fetch_history_def
  resume_complete_def resume_save_assistant_def

lemmas kickoff_defs = journey_kickoff_handler_def kickoff_get_prompts_def kickoff_complete_def
  kickoff_insert_message_def

lemmas greeting_defs = new_chat_greeting_function_def create_session_def greeting_get_prompt_def
  greeting_complete_def greeting_insert_message_def

lemmas legacy_defs = legacy_new_chat_greeting_function_def create_session_def
  greeting_insert_message_def

lemmas handler_splits = sum.split option.split res.split groq_outcome.split prod.split

subsection \<open>The example inputs\<close>

lemma alice_authenticated:
  "authenticate (example_env f a) (alice_request j s k) = Inr alice"
  by (simp add: authenticate_def example_env_def alice_request_def bearer_token_def js_def)

lemma alice_body:
  "body (alice_request j s k)
   = Some \<lparr>user_journey_id = Some j, chat_session_id = Some s, journey_key = Some k,
           content = Some (js ''newest'')\<rparr>"
  by (simp add: alice_request_def)

section \<open>The history window\<close>

text \<open>
  What the history query guarantees for every table: at most \<open>n\<close> rows, exactly
  \<open>min n\<close> of the conversation's row count, in ascending order of creation time.
\<close>

lemma history_query_length:
  "length (history_query n table conv)
   = min n (length (filter (\<lambda>m. m_conversation m = conv) table))"
  by (simp add: history_query_def limit_def order_ascending_def min.commute)

lemma history_query_sorted:
  "sorted (map m_created_at (history_query n table conv))"
  by (simp add: history_query_def limit_def order_ascending_def take_map [symmetric] sorted_wrt_take)

text \<open>
  On a table in chronological order, a conversation of at most \<open>n\<close> messages is loaded
  whole: the window only matters beyond \<open>n\<close> messages.
\<close>

lemma history_query_short:
  assumes "sorted (map m_created_at table)"
    and "length (filter (\<lambda>m. m_conversation m = conv) table) \<le> n"
  shows "history_query n table conv = filter (\<lambda>m. m_conversation m = conv) table"
proof -
  have "sorted (map m_created_at (filter (\<lambda>m. m_conversation m = conv) table))"
    using assms(1) by (rule sorted_filter)
  then have "sort_key m_created_at (filter (\<lambda>m. m_conversation m = conv) table)
             = filter (\<lambda>m. m_conversation m = conv) table"
    by (rule sort_key_id_if_sorted)
  then show ?thesis
    using assms(2) by (simp add: history_query_def order_ascending_def limit_def)
qed

text \<open>
  With 40 earlier rows created at the times 1 to 40 and one more row \<open>m\<close> that is not
  older, the query returns the 40 earlier rows and leaves \<open>m\<close> out.
\<close>

lemma history_query_full_window:
  assumes "m_conversation m = c" and "40 \<le> m_created_at m"
  shows "history_query 40 (map (numbered_message c) [1..<41] @ [m]) c
         = map (numbered_message c) [1..<41]"
proof -
  let ?old = "map (numbered_message c) [1..<41]"
  have f: "filter (\<lambda>x. m_conversation x = c) (?old @ [m]) = ?old @ [m]"
    using assms(1) by (simp add: filter_map o_def numbered_message_def)
  have "map m_created_at ?old = [1..<41]"
    by (simp add: o_def numbered_message_def map_idI)
  then have "sorted (map m_created_at (?old @ [m]))"
    using assms(2) by (auto simp: sorted_append)
  then have s: "sort_key m_created_at (?old @ [m]) = ?old @ [m]"
    by (rule sort_key_id_if_sorted)
  show ?thesis
    unfolding history_query_def f order_ascending_def s limit_def by simp
qed

text \<open>
  C1. The claim: the history load of the reply handlers returns \<open>min (40, count)\<close> rows,
  and when the conversation holds more than 40 messages these are the 40 most recent ones,
  oldest first. The handlers order by creation time ascending and then limit to 40, so the
  load keeps the 40 oldest rows. Evaluated on a conversation of 41 messages created at the
  times 1 to 41: the load returns the messages 1 to 40; the most recent message 41 is not
  among them, and the 40 most recent messages would be 2 to 41. So it is in the chat reply
  handler: after 40 earlier messages in Alice's session \<open>s1\<close>, the history part of the
  completion call is the messages 1 to 40, without the message stored by the request.
\<close>

theorem history_window_keeps_oldest:
  "history_query 40 (map (numbered_message c) [1..<42]) c = map (numbered_message c) [1..<41]
   \<and> map m_created_at (map (numbered_message c) [1..<42]) = [1..<42]
   \<and> numbered_message c 41 \<notin> set (history_query 40 (map (numbered_message c) [1..<42]) c)
   \<and> history_query 40 (map (numbered_message c) [1..<42]) c \<noteq> map (numbered_message c) [2..<42]
   \<and> trace (llm_chat_handler (example_env no_faults (reply_text (js ''ok''))) (example_db 40)
              (alice_request (js ''j1'') (js ''s1'') (js ''calm'')))
     = [Store VerifyConversation, Store SaveUserMessage, Store GetPrompt, Store FetchHistory,
        Groq (groqMessages (js ''Be kind'') (map (numbered_message (js ''s1'')) [1..<41])),
        Store SaveAssistantMessage]"
proof -
  have "[1..<42] = [1..<41] @ [41::nat]"
    by code_simp
  then have split: "map (numbered_message c) [1..<42]
                    = map (numbered_message c) [1..<41] @ [numbered_message c 41]"
    by (simp only: map_append list.map)
  have q: "history_query 40 (map (numbered_message c) [1..<42]) c
           = map (numbered_message c) [1..<41]"
    unfolding split by (rule history_query_full_window) (simp_all add: numbered_message_def)
  have t: "map m_created_at (map (numbered_message c) [1..<42]) = [1..<42]"
    by (simp add: o_def numbered_message_def map_idI)
  have n: "numbered_message c 41 \<notin> set (map (numbered_message c) [1..<41])"
  proof
    assume "numbered_message c 41 \<in> set (map (numbered_message c) [1..<41])"
    then obtain i where i: "i < 41" "numbered_message c 41 = numbered_message c i"
      by auto
    from i(2) have "m_created_at (numbered_message c 41) = m_created_at (numbered_message c i)"
      by simp
    then have "i = 41"
      by (simp add: numbered_message_def)
    with i(1) show False by simp
  qed
  have d: "map (numbered_message c) [1..<41] \<noteq> map (numbered_message c) [2..<42]"
  proof
    assume "map (numbered_message c) [1..<41] = map (numbered_message c) [2..<42]"
    then have "map m_created_at (map (numbered_message c) [1..<41])
               = map m_created_at (map (numbered_message c) [2..<42])"
      by simp
    then have "[1..<41] = [2..<42::nat]"
      by (simp add: o_def numbered_message_def map_idI)
    then have "hd [1..<41] = hd [2..<42::nat]"
      by simp
    then show False
      by (simp add: upt_conv_Cons)
  qed
  have h: "trace (llm_chat_handler (example_env no_faults (reply_text (js ''ok''))) (example_db 40)
                    (alice_request (js ''j1'') (js ''s1'') (js ''calm'')))
           = [Store VerifyConversation, Store SaveUserMessage, Store GetPrompt, Store FetchHistory,
              Groq (groqMessages (js ''Be kind'') (map (numbered_message (js ''s1'')) [1..<41])),
              Store SaveAssistantMessage]"
    by code_simp
  from q t n d h show ?thesis
    by (simp only: simp_thms)
qed

text \<open>
  C2. The claim: the user turn is persisted before the history is fetched, so the fetched
  history contains it and the context sent to the completion API ends with the user's new
  message. The insert does come first, but the history query keeps the 40 oldest rows.
  Evaluated on Alice's journey \<open>j1\<close> with 40 earlier messages and the new message
  \<open>newest\<close>: the request succeeds, the new message is stored as row 41, and the context
  sent to the completion API is the system prompt followed by the messages 1 to 40; it ends
  with the assistant message 40 and does not contain the user's new message.
\<close>

theorem reply_context_omits_new_turn:
  "trace (llm_journey_chat_handler (example_env no_faults (reply_text (js ''ok'')))
            (example_db 40) (alice_request (js ''j1'') (js ''s1'') (js ''calm'')))
   = [Store VerifyConversation, Store SaveUserMessage, Store GetJourneyMeta, Store GetPrompt,
      Store FetchHistory,
      Groq (groqMessages (js ''Be calm'') (map (numbered_message (js ''j1'')) [1..<41])),
      Store SaveAssistantMessage]
   \<and> last (groqMessages (js ''Be calm'') (map (numbered_message (js ''j1'')) [1..<41]))
       = \<lparr>g_role = Assistant, g_content = Some (Text [40])\<rparr>
   \<and> \<lparr>g_role = User, g_content = Some (Text (js ''newest''))\<rparr>
       \<notin> set (groqMessages (js ''Be calm'') (map (numbered_message (js ''j1'')) [1..<41]))
   \<and> user_journey_message
         (store (llm_journey_chat_handler (example_env no_faults (reply_text (js ''ok'')))
                   (example_db 40) (alice_request (js ''j1'') (js ''s1'') (js ''calm''))))
       = map (numbered_message (js ''j1'')) [1..<41]
         @ [new_message \<lparr>st_id = js ''row-41'', st_ordinal = 41, st_created_at = 41\<rparr>
              (js ''j1'') (Some alice) User (Text (js ''newest'')),
            new_message \<lparr>st_id = js ''row-42'', st_ordinal = 42, st_created_at = 42\<rparr>
              (js ''j1'') (Some alice) Assistant (Text (js ''ok''))]
   \<and> status (response (llm_journey_chat_handler (example_env no_faults (reply_text (js ''ok'')))
                          (example_db 40) (alice_request (js ''j1'') (js ''s1'') (js ''calm''))))
       = 200"
  by code_simp

section \<open>The reply flow\<close>

text \<open>
  C3. In both reply handlers the user turn is inserted before the completion call, and no
  failure after it removes it. Whenever the handler issued the insert of the user turn and
  the store accepted it: the insert is the second event of the request, right after the
  ownership check, and occurs nowhere later, so every completion call comes after it in
  the trace; the request issues no delete; the stored messages are the earlier ones
  followed by the user turn; and when the response is not the success response (status
  200), whatever failed, the store is exactly the earlier store with the user turn
  appended.
\<close>

theorem user_turn_survives_failure:
  assumes "authenticate e req = Inr userId" and "body req = Some b"
    and "required (content b) = Some c" and "fault e SaveUserMessage = NoFault"
  shows "(required (user_journey_id b) = Some jid
          \<and> Store SaveUserMessage \<in> set (trace (llm_journey_chat_handler e d req)) \<longrightarrow>
        take 2 (trace (llm_journey_chat_handler e d req))
          = [Store VerifyConversation, Store SaveUserMessage]
      \<and> Store SaveUserMessage \<notin> set (drop 2 (trace (llm_journey_chat_handler e d req)))
      \<and> Store CleanupSession \<notin> set (trace (llm_journey_chat_handler e d req))
      \<and> take (Suc (length (user_journey_message d)))
           (user_journey_message (store (llm_journey_chat_handler e d req)))
         = user_journey_message d
           @ [new_message (assigned e SaveUserMessage) jid (Some userId) User (Text c)]
      \<and> (status (response (llm_journey_chat_handler e d req)) \<noteq> 200 \<longrightarrow>
           store (llm_journey_chat_handler e d req)
           = d\<lparr>user_journey_message := user_journey_message d
                 @ [new_message (assigned e SaveUserMessage) jid (Some userId) User (Text c)]\<rparr>))
   \<and> (required (chat_session_id b) = Some sid
          \<and> Store SaveUserMessage \<in> set (trace (llm_chat_handler e d req)) \<longrightarrow>
        take 2 (trace (llm_chat_handler e d req)) = [Store VerifyConversation, Store SaveUserMessage]
      \<and> Store SaveUserMessage \<notin> set (drop 2 (trace (llm_chat_handler e d req)))
      \<and> Store CleanupSession \<notin> set (trace (llm_chat_handler e d req))
      \<and> take (Suc (length (chat_message d))) (chat_message (store (llm_chat_handler e d req)))
         = chat_message d
           @ [new_message (assigned e SaveUserMessage) sid (Some userId) User (Text c)]
      \<and> (status (response (llm_chat_handler e d req)) \<noteq> 200 \<longrightarrow>
           store (llm_chat_handler e d req)
           = d\<lparr>chat_message := chat_message d
                 @ [new_message (assigned e SaveUserMessage) sid (Some userId) User (Text c)]\<rparr>))"
proof -
  define Q where "Q X \<longleftrightarrow> (required (user_journey_id b) = Some jid
          \<and> Store SaveUserMessage \<in> set (trace X) \<longrightarrow>
        take 2 (trace X) = [Store VerifyConversation, Store SaveUserMessage]
      \<and> Store SaveUserMessage \<notin> set (drop 2 (trace X))
      \<and> Store CleanupSession \<notin> set (trace X)
      \<and> take (Suc (length (user_journey_message d))) (user_journey_message (store X))
         = user_journey_message d
           @ [new_message (assigned e SaveUserMessage) jid (Some userId) User (Text c)]
      \<and> (status (response X) \<noteq> 200 \<longrightarrow>
           store X = d\<lparr>user_journey_message := user_journey_message d
                 @ [new_message (assigned e SaveUserMessage) jid (Some userId) User (Text c)]\<rparr>))"
    for X :: outcome
  define R where "R X \<longleftrightarrow> (required (chat_session_id b) = Some sid
          \<and> Store SaveUserMessage \<in> set (trace X) \<longrightarrow>
        take 2 (trace X) = [Store VerifyConversation, Store SaveUserMessage]
      \<and> Store SaveUserMessage \<notin> set (drop 2 (trace X))
      \<and> Store CleanupSession \<notin> set (trace X)
      \<and> take (Suc (length (chat_message d))) (chat_message (store X))
         = chat_message d
           @ [new_message (assigned e SaveUserMessage) sid (Some userId) User (Text c)]
      \<and> (status (response X) \<noteq> 200 \<longrightarrow>
           store X = d\<lparr>chat_message := chat_message d
                 @ [new_message (assigned e SaveUserMessage) sid (Some userId) User (Text c)]\<rparr>))"
    for X :: outcome
  have "Q (llm_journey_chat_handler e d req)"
    unfolding journey_defs Let_def
    apply (simp split: handler_splits)
    using assms
    apply (auto simp: Q_def dest!: insert_row_Data)
    done
  moreover have "R (llm_chat_handler e d req)"
    unfolding chat_defs Let_def
    apply (simp split: handler_splits)
    using assms
    apply (auto simp: R_def dest!: insert_row_Data)
    done
  ultimately show ?thesis
    by (simp add: Q_def R_def)
qed

text \<open>
  The theorem at a request of Alice whose completion call is answered with an error status:
  both handlers answer 500 and leave the store with the user turn appended.
\<close>

theorem user_turn_survives_failure_witness:
  "status (response (llm_journey_chat_handler (example_env no_faults GroqNotOk) (example_db 2)
                       (alice_request (js ''j1'') (js ''s1'') (js ''calm'')))) = 500
   \<and> store (llm_journey_chat_handler (example_env no_faults GroqNotOk) (example_db 2)
              (alice_request (js ''j1'') (js ''s1'') (js ''calm'')))
     = (example_db 2)\<lparr>user_journey_message := user_journey_message (example_db 2)
         @ [new_message (assigned (example_env no_faults GroqNotOk) SaveUserMessage) (js ''j1'')
              (Some alice) User (Text (js ''newest''))]\<rparr>
   \<and> status (response (llm_chat_handler (example_env no_faults GroqNotOk) (example_db 2)
                         (alice_request (js ''j1'') (js ''s1'') (js ''calm'')))) = 500
   \<and> store (llm_chat_handler (example_env no_faults GroqNotOk) (example_db 2)
              (alice_request (js ''j1'') (js ''s1'') (js ''calm'')))
     = (example_db 2)\<lparr>chat_message := chat_message (example_db 2)
         @ [new_message (assigned (example_env no_faults GroqNotOk) SaveUserMessage) (js ''s1'')
              (Some alice) User (Text (js ''newest''))]\<rparr>"
proof -
  let ?e = "example_env no_faults GroqNotOk"
  let ?r = "alice_request (js ''j1'') (js ''s1'') (js ''calm'')"
  let ?b = "\<lparr>user_journey_id = Some (js ''j1''), chat_session_id = Some (js ''s1''),
            journey_key = Some (js ''calm''), content = Some (js ''newest'')\<rparr>"
  have c: "required (content ?b) = Some (js ''newest'')"
    by code_simp
  have f: "fault ?e SaveUserMessage = NoFault"
    by (simp add: example_env_def no_faults_def)
  have j: "required (user_journey_id ?b) = Some (js ''j1'')"
    and s: "required (chat_session_id ?b) = Some (js ''s1'')"
    by code_simp+
  have tj: "Store SaveUserMessage \<in> set (trace (llm_journey_chat_handler ?e (example_db 2) ?r))"
    and tc: "Store SaveUserMessage \<in> set (trace (llm_chat_handler ?e (example_db 2) ?r))"
    by code_simp+
  have sj: "status (response (llm_journey_chat_handler ?e (example_db 2) ?r)) = 500"
    and sc: "status (response (llm_chat_handler ?e (example_db 2) ?r)) = 500"
    by code_simp+
  from user_turn_survives_failure[OF alice_authenticated alice_body c f,
      where jid = "js ''j1''" and sid = "js ''s1''" and d = "example_db 2"] j s tj tc sj sc
  show ?thesis
    by simp
qed

text \<open>
  C4. In both reply handlers, when the completion call the handler made returned a
  successful response whose extracted text is absent or, after trimming whitespace, empty,
  the request fails with status 500 and the error \<open>GROQ returned empty response\<close>, the
  handler issues no insert of an assistant message, and the assistant messages of the
  store are the ones it held before the request.
\<close>

theorem empty_completion_rejected:
  assumes "complete e ms = GroqOk groqData"
    and "aiResponse groqData = None \<or> aiResponse groqData = Some []"
  shows "(Groq ms \<in> set (trace (llm_journey_chat_handler e d req)) \<longrightarrow>
      response (llm_journey_chat_handler e d req)
        = error_response 500 (js ''GROQ returned empty response'')
     \<and> Store SaveAssistantMessage \<notin> set (trace (llm_journey_chat_handler e d req))
     \<and> filter (\<lambda>m. m_role m = Assistant)
          (user_journey_message (store (llm_journey_chat_handler e d req)))
       = filter (\<lambda>m. m_role m = Assistant) (user_journey_message d))
   \<and> (Groq ms \<in> set (trace (llm_chat_handler e d req)) \<longrightarrow>
      response (llm_chat_handler e d req)
        = error_response 500 (js ''GROQ returned empty response'')
     \<and> Store SaveAssistantMessage \<notin> set (trace (llm_chat_handler e d req))
     \<and> filter (\<lambda>m. m_role m = Assistant) (chat_message (store (llm_chat_handler e d req)))
       = filter (\<lambda>m. m_role m = Assistant) (chat_message d))"
proof -
  have r: "required (aiResponse groqData) = None"
    using assms(2) by (auto simp: required_def)
  define Q where "Q X \<longleftrightarrow> (Groq ms \<in> set (trace X) \<longrightarrow>
      response X = error_response 500 (js ''GROQ returned empty response'')
     \<and> Store SaveAssistantMessage \<notin> set (trace X)
     \<and> filter (\<lambda>m. m_role m = Assistant) (user_journey_message (store X))
       = filter (\<lambda>m. m_role m = Assistant) (user_journey_message d))" for X :: outcome
  define R where "R X \<longleftrightarrow> (Groq ms \<in> set (trace X) \<longrightarrow>
      response X = error_response 500 (js ''GROQ returned empty response'')
     \<and> Store SaveAssistantMessage \<notin> set (trace X)
     \<and> filter (\<lambda>m. m_role m = Assistant) (chat_message (store X))
       = filter (\<lambda>m. m_role m = Assistant) (chat_message d))" for X :: outcome
  have "Q (llm_journey_chat_handler e d req)"
    unfolding journey_defs Let_def
    apply (simp split: handler_splits)
    using assms(1) r
    apply (auto simp: Q_def new_message_def dest!: insert_row_Data)
    done
  moreover have "R (llm_chat_handler e d req)"
    unfolding chat_defs Let_def
    apply (simp split: handler_splits)
    using assms(1) r
    apply (auto simp: R_def new_message_def dest!: insert_row_Data)
    done
  ultimately show ?thesis
    by (simp add: Q_def R_def)
qed

text \<open>
  The theorem at a request of Alice whose completion call returns a space, a tab and a
  no-break space: both handlers answer with the empty-response error and insert no
  assistant message.
\<close>

theorem empty_completion_rejected_witness:
  "response (llm_journey_chat_handler (example_env no_faults (reply_text [0x20, 0x9, 0xA0]))
               (example_db 2) (alice_request (js ''j1'') (js ''s1'') (js ''calm'')))
     = error_response 500 (js ''GROQ returned empty response'')
   \<and> Store SaveAssistantMessage
       \<notin> set (trace (llm_journey_chat_handler (example_env no_faults (reply_text [0x20, 0x9, 0xA0]))
                        (example_db 2) (alice_request (js ''j1'') (js ''s1'') (js ''calm''))))
   \<and> response (llm_chat_handler (example_env no_faults (reply_text [0x20, 0x9, 0xA0]))
                 (example_db 2) (alice_request (js ''j1'') (js ''s1'') (js ''calm'')))
     = error_response 500 (js ''GROQ returned empty response'')
   \<and> Store SaveAssistantMessage
       \<notin> set (trace (llm_chat_handler (example_env no_faults (reply_text [0x20, 0x9, 0xA0]))
                        (example_db 2) (alice_request (js ''j1'') (js ''s1'') (js ''calm''))))"
proof -
  let ?e = "example_env no_faults (reply_text [0x20, 0x9, 0xA0])"
  let ?r = "alice_request (js ''j1'') (js ''s1'') (js ''calm'')"
  let ?g = "GroqData (Some [Choice (Some (ReplyMessage (Some [0x20, 0x9, 0xA0])))])"
  let ?turn = "\<lambda>conv. new_message \<lparr>st_id = js ''row-41'', st_ordinal = 41, st_created_at = 41\<rparr>
                        conv (Some alice) User (Text (js ''newest''))"
  let ?mj = "groqMessages (js ''Be calm'')
               [numbered_message (js ''j1'') 1, numbered_message (js ''j1'') 2, ?turn (js ''j1'')]"
  let ?mc = "groqMessages (js ''Be kind'')
               [numbered_message (js ''s1'') 1, numbered_message (js ''s1'') 2, ?turn (js ''s1'')]"
  have c: "complete ?e ms = GroqOk ?g" for ms
    by (simp add: example_env_def reply_text_def)
  have a: "aiResponse ?g = None \<or> aiResponse ?g = Some []"
    by code_simp
  have tj: "Groq ?mj \<in> set (trace (llm_journey_chat_handler ?e (example_db 2) ?r))"
    and tc: "Groq ?mc \<in> set (trace (llm_chat_handler ?e (example_db 2) ?r))"
    by code_simp+
  from empty_completion_rejected[OF c a, where ms = ?mj and d = "example_db 2" and req = ?r]
    empty_completion_rejected[OF c a, where ms = ?mc and d = "example_db 2" and req = ?r]
    tj tc
  show ?thesis
    by simp
qed

text \<open>
  C7. A request of an authenticated caller whose conversation handle resolves to no
  conversation of the caller (every row with that id belongs to someone else) gets the
  fixed not-found response: status 404 with \<open>Journey not found or access denied\<close> from the
  journey reply and kickoff handlers, 404 with \<open>Chat session not found or access denied\<close>
  from the chat reply handler, 400 with \<open>Invalid chat session\<close> from the resume handler.
  The request leaves the store as it was and issues the ownership lookup only, so no
  message is read; the outcome is the same for every content \<open>ms\<close> of the message table.
\<close>

theorem foreign_conversation_denied:
  assumes "authenticate e req = Inr caller" and "body req = Some b"
    and "fault e VerifyConversation \<noteq> Throws"
  shows "(required (user_journey_id b) = Some h \<and> required (content b) \<noteq> None
          \<and> (\<forall>j\<in>set (user_journey d). uj_id j = h \<longrightarrow> uj_user_id j \<noteq> caller) \<longrightarrow>
            llm_journey_chat_handler e (d\<lparr>user_journey_message := ms\<rparr>) req
            = finish (error_response 404 (js ''Journey not found or access denied''))
                (d\<lparr>user_journey_message := ms\<rparr>) [Store VerifyConversation])
       \<and> (required (chat_session_id b) = Some h \<and> required (content b) \<noteq> None
          \<and> (\<forall>s\<in>set (chat_session d). cs_id s = h \<longrightarrow> cs_user_id s \<noteq> caller) \<longrightarrow>
            llm_chat_handler e (d\<lparr>chat_message := ms\<rparr>) req
            = finish (error_response 404 (js ''Chat session not found or access denied''))
                (d\<lparr>chat_message := ms\<rparr>) [Store VerifyConversation])
       \<and> (required (user_journey_id b) = Some h
          \<and> (\<forall>j\<in>set (user_journey d). uj_id j = h \<longrightarrow> uj_user_id j \<noteq> caller) \<longrightarrow>
            journey_kickoff_handler e (d\<lparr>user_journey_message := ms\<rparr>) req
            = finish (error_response 404 (js ''Journey not found or access denied''))
                (d\<lparr>user_journey_message := ms\<rparr>) [Store VerifyConversation])
       \<and> (required (chat_session_id b) = Some h
          \<and> (\<forall>s\<in>set (chat_session d). cs_id s = h \<longrightarrow> cs_user_id s \<noteq> caller) \<longrightarrow>
            resume_greeting_handler e (d\<lparr>chat_message := ms\<rparr>) req
            = finish (error_response 400 (js ''Invalid chat session''))
                (d\<lparr>chat_message := ms\<rparr>) [Store VerifyConversation])"
proof -
  have j: "single (fault e VerifyConversation) (filter (\<lambda>j. uj_id j = h) (user_journey d)) = Err
        \<or> (\<exists>r. single (fault e VerifyConversation) (filter (\<lambda>j. uj_id j = h) (user_journey d))
                  = Data r
              \<and> uj_user_id r \<noteq> caller)"
    if "\<forall>j\<in>set (user_journey d). uj_id j = h \<longrightarrow> uj_user_id j \<noteq> caller"
    using single_foreign[OF assms(3), of "user_journey d" "\<lambda>j. uj_id j = h" uj_user_id caller] that
    by blast
  have s: "single (fault e VerifyConversation) (filter (\<lambda>s. cs_id s = h) (chat_session d)) = Err
        \<or> (\<exists>r. single (fault e VerifyConversation) (filter (\<lambda>s. cs_id s = h) (chat_session d))
                  = Data r
              \<and> cs_user_id r \<noteq> caller)"
    if "\<forall>s\<in>set (chat_session d). cs_id s = h \<longrightarrow> cs_user_id s \<noteq> caller"
    using single_foreign[OF assms(3), of "chat_session d" "\<lambda>s. cs_id s = h" cs_user_id caller] that
    by blast
  show ?thesis
    using assms(1,2) j s
    by (auto simp: llm_journey_chat_handler_def llm_chat_handler_def journey_kickoff_handler_def
        resume_greeting_handler_def)
qed

text \<open>
  The theorem at requests of Alice for Bob's journey \<open>j2\<close> and Bob's session \<open>s2\<close>, on a
  store whose message tables hold Bob's messages \<open>1, 2, 3\<close>: the responses are the fixed
  ones.
\<close>

theorem foreign_conversation_denied_witness:
  "response (llm_journey_chat_handler (example_env no_faults (reply_text (js ''ok'')))
               ((example_db 0)\<lparr>user_journey_message := map (numbered_message (js ''j2'')) [1..<4]\<rparr>)
               (alice_request (js ''j2'') (js ''s2'') (js ''calm'')))
     = error_response 404 (js ''Journey not found or access denied'')
   \<and> response (llm_chat_handler (example_env no_faults (reply_text (js ''ok'')))
               ((example_db 0)\<lparr>chat_message := map (numbered_message (js ''s2'')) [1..<4]\<rparr>)
               (alice_request (js ''j2'') (js ''s2'') (js ''calm'')))
     = error_response 404 (js ''Chat session not found or access denied'')
   \<and> response (journey_kickoff_handler (example_env no_faults (reply_text (js ''ok'')))
               ((example_db 0)\<lparr>user_journey_message := map (numbered_message (js ''j2'')) [1..<4]\<rparr>)
               (alice_request (js ''j2'') (js ''s2'') (js ''calm'')))
     = error_response 404 (js ''Journey not found or access denied'')
   \<and> response (resume_greeting_handler (example_env no_faults (reply_text (js ''ok'')))
               ((example_db 0)\<lparr>chat_message := map (numbered_message (js ''s2'')) [1..<4]\<rparr>)
               (alice_request (js ''j2'') (js ''s2'') (js ''calm'')))
     = error_response 400 (js ''Invalid chat session'')"
proof -
  let ?e = "example_env no_faults (reply_text (js ''ok''))"
  let ?b = "\<lparr>user_journey_id = Some (js ''j2''), chat_session_id = Some (js ''s2''),
            journey_key = Some (js ''calm''), content = Some (js ''newest'')\<rparr>"
  have f: "fault ?e VerifyConversation \<noteq> Throws"
    by (simp add: example_env_def no_faults_def)
  have j: "required (user_journey_id ?b) = Some (js ''j2'')"
    and s: "required (chat_session_id ?b) = Some (js ''s2'')"
    and c: "required (content ?b) \<noteq> None"
    by code_simp+
  have oj: "\<forall>j\<in>set (user_journey (example_db 0)). uj_id j = js ''j2'' \<longrightarrow> uj_user_id j \<noteq> alice"
    and os: "\<forall>s\<in>set (chat_session (example_db 0)). cs_id s = js ''s2'' \<longrightarrow> cs_user_id s \<noteq> alice"
    by code_simp+
  from foreign_conversation_denied[OF alice_authenticated alice_body f,
      where h = "js ''j2''" and d = "example_db 0"
        and ms = "map (numbered_message (js ''j2'')) [1..<4]"]
    foreign_conversation_denied[OF alice_authenticated alice_body f,
      where h = "js ''s2''" and d = "example_db 0"
        and ms = "map (numbered_message (js ''s2'')) [1..<4]"]
    j s c oj os
  show ?thesis
    by simp
qed

section \<open>Context assembly\<close>

text \<open>
  C8. The system prompt is the element at index 0 of every outbound message list built
  from a loaded history, whatever the history, the empty one included: this holds for the
  two assembly functions, and every completion call issued by a reply handler or by the
  resume handler carries at index 0 the content of an active row of the prompts table
  (the row with the key \<open>system_prompt\<close> for the chat reply and resume handlers).
\<close>

theorem system_prompt_first:
  "groqMessages systemPrompt history ! 0
     = \<lparr>g_role = System, g_content = Some (Text systemPrompt)\<rparr>
   \<and> resume_groqMessages systemPrompt history name ! 0
       = \<lparr>g_role = System, g_content = Some (Text systemPrompt)\<rparr>
   \<and> (Groq ms \<in> set (trace (llm_journey_chat_handler e d req)) \<longrightarrow>
        ms \<noteq> [] \<and> (\<exists>p\<in>set (prompts d). p_is_active p \<and> p_content p \<noteq> []
           \<and> ms ! 0 = \<lparr>g_role = System, g_content = Some (Text (p_content p))\<rparr>))
   \<and> (Groq ms \<in> set (trace (llm_chat_handler e d req)) \<longrightarrow>
        ms \<noteq> [] \<and> (\<exists>p\<in>set (prompts d). p_is_active p \<and> p_key p = js ''system_prompt''
           \<and> p_content p \<noteq> []
           \<and> ms ! 0 = \<lparr>g_role = System, g_content = Some (Text (p_content p))\<rparr>))
   \<and> (Groq ms \<in> set (trace (resume_greeting_handler e d req)) \<longrightarrow>
        ms \<noteq> [] \<and> (\<exists>p\<in>set (prompts d). p_is_active p \<and> p_key p = js ''system_prompt''
           \<and> p_content p \<noteq> []
           \<and> ms ! 0 = \<lparr>g_role = System, g_content = Some (Text (p_content p))\<rparr>))"
proof -
  have a: "groqMessages systemPrompt history ! 0
           = \<lparr>g_role = System, g_content = Some (Text systemPrompt)\<rparr>"
    by (simp add: groqMessages_def)
  have b: "resume_groqMessages systemPrompt history name ! 0
           = \<lparr>g_role = System, g_content = Some (Text systemPrompt)\<rparr>"
    by (simp add: resume_groqMessages_def)
  have j: "Groq ms \<in> set (trace (llm_journey_chat_handler e d req)) \<longrightarrow>
        ms \<noteq> [] \<and> (\<exists>p\<in>set (prompts d). p_is_active p \<and> p_content p \<noteq> []
           \<and> ms ! 0 = \<lparr>g_role = System, g_content = Some (Text (p_content p))\<rparr>)"
    apply (simp add: journey_defs Let_def split: handler_splits)
    apply (auto simp: groqMessages_def dest!: single_Data filter_singleton insert_row_Data)
    done
  have c: "Groq ms \<in> set (trace (llm_chat_handler e d req)) \<longrightarrow>
        ms \<noteq> [] \<and> (\<exists>p\<in>set (prompts d). p_is_active p \<and> p_key p = js ''system_prompt''
           \<and> p_content p \<noteq> []
           \<and> ms ! 0 = \<lparr>g_role = System, g_content = Some (Text (p_content p))\<rparr>)"
    apply (simp add: chat_defs Let_def split: handler_splits)
    apply (auto simp: groqMessages_def dest!: single_Data filter_singleton insert_row_Data)
    done
  have r: "Groq ms \<in> set (trace (resume_greeting_handler e d req)) \<longrightarrow>
        ms \<noteq> [] \<and> (\<exists>p\<in>set (prompts d). p_is_active p \<and> p_key p = js ''system_prompt''
           \<and> p_content p \<noteq> []
           \<and> ms ! 0 = \<lparr>g_role = System, g_content = Some (Text (p_content p))\<rparr>)"
    apply (simp add: resume_defs Let_def split: handler_splits)
    apply (auto simp: resume_groqMessages_def SYSTEM_PROMPT_KEY_def
        dest!: single_Data filter_singleton insert_row_Data)
    done
  from a b j c r show ?thesis
    by blast
qed

text \<open>
  The theorem at requests of Alice on conversations without earlier messages: the resume
  handler sends the system prompt and the synthetic greeting turn, the journey reply
  handler the system prompt and the user turn it has just stored.
\<close>

theorem system_prompt_first_witness:
  "Groq [\<lparr>g_role = System, g_content = Some (Text (js ''Be kind''))\<rparr>,
         \<lparr>g_role = User,
          g_content = Some (Text (js ''I am back in the chat. Please pick up the conversation where we left off and greet me warmly using my name once. My name is Al''))\<rparr>]
     \<in> set (trace (resume_greeting_handler (example_env no_faults (reply_text (js ''ok'')))
                     (example_db 0) (alice_request (js ''j1'') (js ''s1'') (js ''calm''))))
   \<and> (\<exists>p\<in>set (prompts (example_db 0)). p_is_active p \<and> p_key p = js ''system_prompt''
         \<and> p_content p \<noteq> []
         \<and> [\<lparr>g_role = System, g_content = Some (Text (js ''Be kind''))\<rparr>,
             \<lparr>g_role = User,
              g_content = Some (Text (js ''I am back in the chat. Please pick up the conversation where we left off and greet me warmly using my name once. My name is Al''))\<rparr>] ! 0
           = \<lparr>g_role = System, g_content = Some (Text (p_content p))\<rparr>)
   \<and> Groq [\<lparr>g_role = System, g_content = Some (Text (js ''Be calm''))\<rparr>,
           \<lparr>g_role = User, g_content = Some (Text (js ''newest''))\<rparr>]
       \<in> set (trace (llm_journey_chat_handler (example_env no_faults (reply_text (js ''ok'')))
                       (example_db 0) (alice_request (js ''j1'') (js ''s1'') (js ''calm''))))
   \<and> (\<exists>p\<in>set (prompts (example_db 0)). p_is_active p \<and> p_content p \<noteq> []
         \<and> [\<lparr>g_role = System, g_content = Some (Text (js ''Be calm''))\<rparr>,
             \<lparr>g_role = User, g_content = Some (Text (js ''newest''))\<rparr>] ! 0
           = \<lparr>g_role = System, g_content = Some (Text (p_content p))\<rparr>)"
proof -
  let ?e = "example_env no_faults (reply_text (js ''ok''))"
  let ?r = "alice_request (js ''j1'') (js ''s1'') (js ''calm'')"
  let ?mr = "[\<lparr>g_role = System, g_content = Some (Text (js ''Be kind''))\<rparr>,
         \<lparr>g_role = User,
          g_content = Some (Text (js ''I am back in the chat. Please pick up the conversation where we left off and greet me warmly using my name once. My name is Al''))\<rparr>]"
  let ?mj = "[\<lparr>g_role = System, g_content = Some (Text (js ''Be calm''))\<rparr>,
           \<lparr>g_role = User, g_content = Some (Text (js ''newest''))\<rparr>]"
  have tr: "Groq ?mr \<in> set (trace (resume_greeting_handler ?e (example_db 0) ?r))"
    by code_simp
  have tj: "Groq ?mj \<in> set (trace (llm_journey_chat_handler ?e (example_db 0) ?r))"
    by code_simp
  from system_prompt_first[where ms = ?mr and e = ?e and d = "example_db 0" and req = ?r]
    system_prompt_first[where ms = ?mj and e = ?e and d = "example_db 0" and req = ?r] tr tj
  show ?thesis
    by blast
qed

section \<open>Conversation-creating flows\<close>

text \<open>
  C6. In both new-chat greeting handlers, when the request reached the insert of the
  assistant message (so it had created its session) and that insert returned an error,
  the handler issues the delete of the session it created right after the failed insert,
  and answers 500 with \<open>Failed to write message\<close> whatever becomes of the delete: \<open>f\<close> is
  the fate of the delete (it works, it returns an error, it throws), the response does not
  depend on it, and the session table is the one with the new row, after a delete with
  that fate. The journey kickoff handler creates no conversation and deletes none: it
  issues no insert or delete on a conversation table and leaves the journeys of the users
  as they were.
\<close>

theorem greeting_cleanup_best_effort:
  assumes "authenticate e req = Inr userId"
    and "fault e SaveAssistantMessage = ReturnsError"
  shows "(Store SaveAssistantMessage
            \<in> set (trace (new_chat_greeting_function
                             (e\<lparr>fault := (fault e)(CleanupSession := f)\<rparr>) d req)) \<longrightarrow>
          response (new_chat_greeting_function (e\<lparr>fault := (fault e)(CleanupSession := f)\<rparr>) d req)
            = error_response 500 (js ''Failed to write message'')
        \<and> (\<exists>pre. trace (new_chat_greeting_function
                            (e\<lparr>fault := (fault e)(CleanupSession := f)\<rparr>) d req)
              = Store GetProfile # Store CreateSession # pre
                @ [Store SaveAssistantMessage, Store CleanupSession])
        \<and> store (new_chat_greeting_function (e\<lparr>fault := (fault e)(CleanupSession := f)\<rparr>) d req)
            = d\<lparr>chat_session :=
                  delete_rows f (\<lambda>s. cs_id s = st_id (assigned e CreateSession))
                    (chat_session d
                     @ [\<lparr>cs_id = st_id (assigned e CreateSession), cs_user_id = userId\<rparr>])\<rparr>)
     \<and> (Store SaveAssistantMessage
            \<in> set (trace (legacy_new_chat_greeting_function
                             (e\<lparr>fault := (fault e)(CleanupSession := f)\<rparr>) d req)) \<longrightarrow>
          response (legacy_new_chat_greeting_function
                      (e\<lparr>fault := (fault e)(CleanupSession := f)\<rparr>) d req)
            = error_response 500 (js ''Failed to write message'')
        \<and> (\<exists>pre. trace (legacy_new_chat_greeting_function
                            (e\<lparr>fault := (fault e)(CleanupSession := f)\<rparr>) d req)
              = Store GetProfile # Store CreateSession # pre
                @ [Store SaveAssistantMessage, Store CleanupSession])
        \<and> store (legacy_new_chat_greeting_function
                   (e\<lparr>fault := (fault e)(CleanupSession := f)\<rparr>) d req)
            = d\<lparr>chat_session :=
                  delete_rows f (\<lambda>s. cs_id s = st_id (assigned e CreateSession))
                    (chat_session d
                     @ [\<lparr>cs_id = st_id (assigned e CreateSession), cs_user_id = userId\<rparr>])\<rparr>)
     \<and> Store CreateSession \<notin> set (trace (journey_kickoff_handler e d req))
     \<and> Store CreateJourney \<notin> set (trace (journey_kickoff_handler e d req))
     \<and> Store CleanupSession \<notin> set (trace (journey_kickoff_handler e d req))
     \<and> user_journey (store (journey_kickoff_handler e d req)) = user_journey d"
proof -
  define e' where "e' = e\<lparr>fault := (fault e)(CleanupSession := f)\<rparr>"
  have "authenticate e' req = authenticate e req"
    by (simp add: e'_def authenticate_def cong: option.case_cong)
  then have e': "authenticate e' req = Inr userId" "fault e' SaveAssistantMessage = ReturnsError"
    "fault e' CleanupSession = f" "assigned e' = assigned e"
    using assms by (simp_all add: e'_def)
  define Q where "Q X \<longleftrightarrow> (Store SaveAssistantMessage \<in> set (trace X) \<longrightarrow>
          response X = error_response 500 (js ''Failed to write message'')
        \<and> (\<exists>pre. trace X = Store GetProfile # Store CreateSession # pre
                @ [Store SaveAssistantMessage, Store CleanupSession])
        \<and> store X = d\<lparr>chat_session :=
                  delete_rows f (\<lambda>s. cs_id s = st_id (assigned e CreateSession))
                    (chat_session d
                     @ [\<lparr>cs_id = st_id (assigned e CreateSession), cs_user_id = userId\<rparr>])\<rparr>)"
    for X :: outcome
  define K where "K X \<longleftrightarrow> Store CreateSession \<notin> set (trace X)
     \<and> Store CreateJourney \<notin> set (trace X) \<and> Store CleanupSession \<notin> set (trace X)
     \<and> user_journey (store X) = user_journey d" for X :: outcome
  have g: "Q (new_chat_greeting_function e' d req)"
    unfolding greeting_defs Let_def
    apply (simp split: handler_splits)
    using e'
    apply (auto simp: Q_def insert_row_def split: fault.splits)
    done
  have l: "Q (legacy_new_chat_greeting_function e' d req)"
    unfolding legacy_defs Let_def
    apply (simp split: handler_splits)
    using e'
    apply (auto simp: Q_def insert_row_def split: fault.splits)
    done
  have k: "K (journey_kickoff_handler e d req)"
    unfolding kickoff_defs Let_def
    apply (simp split: handler_splits)
    apply (auto simp: K_def dest!: insert_row_Data)
    done
  from g l k show ?thesis
    unfolding Q_def K_def e'_def by blast
qed

text \<open>
  The theorem at a request of Alice whose assistant insert returns an error, once with a
  delete that works and once with a delete that throws: the response is the same, and the
  session \<open>row-41\<close> created by the request is gone in the first case and left in the second.
\<close>

theorem greeting_cleanup_best_effort_witness:
  "response (new_chat_greeting_function
       ((example_env (no_faults(SaveAssistantMessage := ReturnsError)) (reply_text (js ''Hi Al'')))
          \<lparr>fault := (no_faults(SaveAssistantMessage := ReturnsError))(CleanupSession := NoFault)\<rparr>)
       (example_db 0) (alice_request (js ''j1'') (js ''s1'') (js ''calm'')))
     = error_response 500 (js ''Failed to write message'')
   \<and> chat_session (store (new_chat_greeting_function
       ((example_env (no_faults(SaveAssistantMessage := ReturnsError)) (reply_text (js ''Hi Al'')))
          \<lparr>fault := (no_faults(SaveAssistantMessage := ReturnsError))(CleanupSession := NoFault)\<rparr>)
       (example_db 0) (alice_request (js ''j1'') (js ''s1'') (js ''calm''))))
     = chat_session (example_db 0)
   \<and> response (legacy_new_chat_greeting_function
       ((example_env (no_faults(SaveAssistantMessage := ReturnsError)) (reply_text (js ''Hi Al'')))
          \<lparr>fault := (no_faults(SaveAssistantMessage := ReturnsError))(CleanupSession := Throws)\<rparr>)
       (example_db 0) (alice_request (js ''j1'') (js ''s1'') (js ''calm'')))
     = error_response 500 (js ''Failed to write message'')
   \<and> chat_session (store (legacy_new_chat_greeting_function
       ((example_env (no_faults(SaveAssistantMessage := ReturnsError)) (reply_text (js ''Hi Al'')))
          \<lparr>fault := (no_faults(SaveAssistantMessage := ReturnsError))(CleanupSession := Throws)\<rparr>)
       (example_db 0) (alice_request (js ''j1'') (js ''s1'') (js ''calm''))))
     = chat_session (example_db 0) @ [\<lparr>cs_id = js ''row-41'', cs_user_id = alice\<rparr>]"
proof -
  let ?faults = "no_faults(SaveAssistantMessage := ReturnsError)"
  let ?e = "example_env ?faults (reply_text (js ''Hi Al''))"
  let ?r = "alice_request (js ''j1'') (js ''s1'') (js ''calm'')"
  have fe: "fault ?e = ?faults" and ae: "st_id (assigned ?e CreateSession) = js ''row-41''"
    by (simp_all add: example_env_def)
  have f: "fault ?e SaveAssistantMessage = ReturnsError"
    by (simp add: fe)
  have tg: "Store SaveAssistantMessage
      \<in> set (trace (new_chat_greeting_function (?e\<lparr>fault := ?faults(CleanupSession := NoFault)\<rparr>)
                      (example_db 0) ?r))"
    and tl: "Store SaveAssistantMessage
      \<in> set (trace (legacy_new_chat_greeting_function
                      (?e\<lparr>fault := ?faults(CleanupSession := Throws)\<rparr>) (example_db 0) ?r))"
    by code_simp+
  have dg: "delete_rows NoFault (\<lambda>s. cs_id s = js ''row-41'')
              (chat_session (example_db 0) @ [\<lparr>cs_id = js ''row-41'', cs_user_id = alice\<rparr>])
            = chat_session (example_db 0)"
    by code_simp
  have dl: "delete_rows Throws (\<lambda>s. cs_id s = js ''row-41'')
              (chat_session (example_db 0) @ [\<lparr>cs_id = js ''row-41'', cs_user_id = alice\<rparr>])
            = chat_session (example_db 0) @ [\<lparr>cs_id = js ''row-41'', cs_user_id = alice\<rparr>]"
    by (simp add: delete_rows_def)
  from greeting_cleanup_best_effort[OF alice_authenticated f,
      where f = NoFault and d = "example_db 0"]
    greeting_cleanup_best_effort[OF alice_authenticated f,
      where f = Throws and d = "example_db 0"]
    tg tl
  show ?thesis
    by (simp add: fe ae dg dl)
qed

text \<open>
  C9. The claim: in the legacy greeting handler, whenever the lookup finds no active
  \<open>greeting_new\<close> prompt, or the completion call fails or returns empty text, the request
  does not fail: the fallback text is stored and returned with status 201. The insert of
  the assistant message can still fail, and then the handler answers 500: here no prompt
  exists and the insert returns an error.
\<close>

theorem legacy_fallback_counterexample:
  "system_prompts (example_db 0) = []
   \<and> response (legacy_new_chat_greeting_function
                 (example_env (no_faults(SaveAssistantMessage := ReturnsError)) GroqNotOk)
                 (example_db 0) (alice_request (js ''j1'') (js ''s1'') (js ''calm'')))
     = error_response 500 (js ''Failed to write message'')"
  by code_simp

lemma legacy_text_fallback:
  assumes "filter (\<lambda>p. p_key p = js ''greeting_new'' \<and> p_is_active p) (system_prompts d) = []
      \<or> (\<forall>ms. complete e ms = GroqThrows \<or> complete e ms = GroqNotOk)
      \<or> (\<forall>ms. \<exists>groqData. complete e ms = GroqOk groqData
              \<and> (aiResponse groqData = None \<or> aiResponse groqData = Some []))"
  shows "fst (legacy_message_text e d name) = legacy_fallback"
proof -
  consider (a) "filter (\<lambda>p. p_key p = js ''greeting_new'' \<and> p_is_active p) (system_prompts d) = []"
    | (b) "\<forall>ms. complete e ms = GroqThrows \<or> complete e ms = GroqNotOk"
    | (c) "\<forall>ms. \<exists>groqData. complete e ms = GroqOk groqData
              \<and> (aiResponse groqData = None \<or> aiResponse groqData = Some [])"
    using assms by blast
  then show ?thesis
  proof cases
    case a
    then show ?thesis
      by (simp add: legacy_message_text_def single_def split: fault.split res.split)
  next
    case b
    have "complete e ms \<noteq> GroqOk g" for ms g
      using b[rule_format, of ms] by auto
    then show ?thesis
      by (simp add: legacy_message_text_def split: res.split groq_outcome.split)
  next
    case c
    have "required (aiResponse g) = None" if "complete e ms = GroqOk g" for ms g
      using c[rule_format, of ms] that by (auto simp: required_def)
    then show ?thesis
      by (simp add: legacy_message_text_def split: res.split groq_outcome.split option.split)
  qed
qed

text \<open>
  C9, amended. In the legacy greeting handler, for a request that created its session,
  when no active \<open>greeting_new\<close> prompt exists, or the completion call throws or returns an
  error status, or it returns absent or empty trimmed text, and the insert of the assistant
  message works, the handler stores the fallback text \<open>Hello! How can I help today?\<close> as
  the assistant message of the new session and answers 201 with that text.
\<close>

theorem legacy_fallback_greeting:
  assumes "authenticate e req = Inr userId"
    and "fault e CreateSession = NoFault" and "st_id (assigned e CreateSession) \<noteq> []"
    and "fault e SaveAssistantMessage = NoFault"
    and "filter (\<lambda>p. p_key p = js ''greeting_new'' \<and> p_is_active p) (system_prompts d) = []
      \<or> (\<forall>ms. complete e ms = GroqThrows \<or> complete e ms = GroqNotOk)
      \<or> (\<forall>ms. \<exists>groqData. complete e ms = GroqOk groqData
              \<and> (aiResponse groqData = None \<or> aiResponse groqData = Some []))"
  shows "response (legacy_new_chat_greeting_function e d req)
           = \<lparr>status = 201,
              payload = Greeting (st_id (assigned e CreateSession))
                          (js ''Hello! How can I help today?'') (get_preferred_name e d userId)\<rparr>
       \<and> chat_message (store (legacy_new_chat_greeting_function e d req))
           = chat_message d
             @ [new_message (assigned e SaveAssistantMessage) (st_id (assigned e CreateSession)) None
                  Assistant (TextObject (js ''Hello! How can I help today?''))]"
proof -
  let ?d' = "d\<lparr>chat_session := chat_session d
               @ [\<lparr>cs_id = st_id (assigned e CreateSession), cs_user_id = userId\<rparr>]\<rparr>"
  have "fst (legacy_message_text e ?d' (get_preferred_name e d userId)) = legacy_fallback"
    using assms(5) by (intro legacy_text_fallback) simp
  then show ?thesis
    using assms(1-4)
    by (simp add: legacy_defs Let_def legacy_fallback_def)
qed

text \<open>
  The theorem at a request of Alice on a store with an active \<open>greeting_new\<close> prompt, the
  completion returning a line feed and two spaces: the fallback is returned with status
  201, for the name on Alice's profile.
\<close>

theorem legacy_fallback_greeting_witness:
  "response (legacy_new_chat_greeting_function (example_env no_faults (reply_text [0xA, 0x20, 0x20]))
      ((example_db 0)\<lparr>system_prompts :=
          [\<lparr>p_key = js ''greeting_new'', p_content = js ''Greet'', p_is_active = True\<rparr>]\<rparr>)
      (alice_request (js ''j1'') (js ''s1'') (js ''calm'')))
   = \<lparr>status = 201,
      payload = Greeting (js ''row-41'') (js ''Hello! How can I help today?'') (Some (js ''Al''))\<rparr>"
proof -
  let ?e = "example_env no_faults (reply_text [0xA, 0x20, 0x20])"
  let ?d = "(example_db 0)\<lparr>system_prompts :=
          [\<lparr>p_key = js ''greeting_new'', p_content = js ''Greet'', p_is_active = True\<rparr>]\<rparr>"
  let ?g = "GroqData (Some [Choice (Some (ReplyMessage (Some [0xA, 0x20, 0x20])))])"
  have f: "fault ?e CreateSession = NoFault" "fault ?e SaveAssistantMessage = NoFault"
    and i: "st_id (assigned ?e CreateSession) = js ''row-41''"
    by (simp_all add: example_env_def no_faults_def)
  have n: "st_id (assigned ?e CreateSession) \<noteq> []"
    unfolding i by code_simp
  have "aiResponse ?g = Some []"
    by code_simp
  then have c: "\<forall>ms. \<exists>groqData. complete ?e ms = GroqOk groqData
                  \<and> (aiResponse groqData = None \<or> aiResponse groqData = Some [])"
    by (simp add: example_env_def reply_text_def)
  have p: "get_preferred_name ?e ?d alice = Some (js ''Al'')"
    by code_simp
  from legacy_fallback_greeting[OF alice_authenticated f(1) n f(2) disjI2[OF disjI2[OF c]],
      where d = ?d]
  show ?thesis
    by (simp add: i p)
qed

section \<open>Journey kickoff and journey resolution\<close>

text \<open>
  C5. The claim: in the kickoff flow, when the seed prompt \<open><journey_key>_user\<close> has no
  active row, the handler rejects the request instead of proceeding with an absent user
  turn. The handler reads the seed prompt through \<open>userPrompt?.content\<close> and never tests
  it. On the example store the prompts table holds the keys \<open>calm\<close> and \<open>system_prompt\<close>
  only; the kickoff of Alice's journey \<open>j1\<close> (key \<open>calm\<close>) calls the completion API with a
  user turn without content and, the API returning text, is answered with status 201.
\<close>

theorem kickoff_without_seed_prompt_counterexample:
  "map p_key (prompts (example_db 0)) = [js ''calm'', js ''system_prompt'']
   \<and> trace (journey_kickoff_handler (example_env no_faults (reply_text (js ''Welcome'')))
              (example_db 0) (alice_request (js ''j1'') (js ''s1'') (js ''calm'')))
     = [Store VerifyConversation, Store GetProfile, Store GetJourneyMeta, Store GetPrompt,
        Groq [\<lparr>g_role = System, g_content = Some (Text (js ''Be calm''))\<rparr>,
              \<lparr>g_role = User, g_content = None\<rparr>],
        Store SaveAssistantMessage]
   \<and> response (journey_kickoff_handler (example_env no_faults (reply_text (js ''Welcome'')))
                 (example_db 0) (alice_request (js ''j1'') (js ''s1'') (js ''calm'')))
     = \<lparr>status = 201,
        payload = JourneyTurn (js ''j1'') (js ''row-42'') Assistant (js ''Welcome'') 42 42\<rparr>"
  by code_simp

text \<open>
  C5, amended. In the kickoff flow, for a request that passed the ownership check and whose
  prompt query works, when the seed prompt \<open><journey_key>_user\<close> has no active row: the
  handler rejects the request with status 500 only when the journey prompt is missing as
  well (\<open>Prompts not found for journey\<close>) or its first active row has empty content
  (\<open>Journey prompt not found for\<close>). When the journey prompt has content, the handler
  proceeds: its fifth event is the completion call with the journey prompt as system
  message and a user turn without content, and when that call returns text and the insert
  of the assistant message works, the response is the success response with status 201.
\<close>

theorem kickoff_without_seed_prompt:
  assumes "authenticate e req = Inr userId" and "body req = Some b"
    and "required (user_journey_id b) = Some jid"
    and "single (fault e VerifyConversation) (filter (\<lambda>j. uj_id j = jid) (user_journey d))
           = Data journey"
    and "uj_user_id journey = userId"
    and "fault e GetJourneyMeta \<noteq> Throws" and "fault e GetPrompt = NoFault"
    and "\<forall>p\<in>set (prompts d).
           \<not> (p_key p = uj_journey_key journey @ js ''_user'' \<and> p_is_active p)"
  shows "(find (\<lambda>p. p_key p = uj_journey_key journey \<and> p_is_active p) (prompts d) = None \<longrightarrow>
            journey_kickoff_handler e d req
            = finish (error_response 500
                        (js ''Prompts not found for journey: '' @ uj_journey_key journey))
                d [Store VerifyConversation, Store GetProfile, Store GetJourneyMeta, Store GetPrompt])
       \<and> (find (\<lambda>p. p_key p = uj_journey_key journey \<and> p_is_active p) (prompts d) = Some prompt
          \<and> p_content prompt = [] \<longrightarrow>
            journey_kickoff_handler e d req
            = finish (error_response 500
                        (js ''Journey prompt not found for: '' @ uj_journey_key journey))
                d [Store VerifyConversation, Store GetProfile, Store GetJourneyMeta, Store GetPrompt])
       \<and> (find (\<lambda>p. p_key p = uj_journey_key journey \<and> p_is_active p) (prompts d) = Some prompt
          \<and> p_content prompt \<noteq> [] \<longrightarrow>
            take 5 (trace (journey_kickoff_handler e d req))
            = [Store VerifyConversation, Store GetProfile, Store GetJourneyMeta, Store GetPrompt,
               Groq [\<lparr>g_role = System, g_content = Some (Text (p_content prompt))\<rparr>,
                     \<lparr>g_role = User, g_content = None\<rparr>]]
          \<and> (complete e [\<lparr>g_role = System, g_content = Some (Text (p_content prompt))\<rparr>,
                          \<lparr>g_role = User, g_content = None\<rparr>] = GroqOk groqData
              \<and> required (aiResponse groqData) = Some answer
              \<and> fault e SaveAssistantMessage = NoFault \<longrightarrow>
                response (journey_kickoff_handler e d req)
                = \<lparr>status = 201,
                   payload = JourneyTurn jid (st_id (assigned e SaveAssistantMessage)) Assistant answer
                               (st_ordinal (assigned e SaveAssistantMessage))
                               (st_created_at (assigned e SaveAssistantMessage))\<rparr>))"
proof -
  let ?key = "uj_journey_key journey"
  let ?rows = "filter (\<lambda>p. (p_key p = ?key \<or> p_key p = ?key @ js ''_user'') \<and> p_is_active p)
                 (prompts d)"
  have meta: "single (fault e GetJourneyMeta) rs \<noteq> Threw" for rs :: "journey_row list"
    using assms(6) by (auto simp: single_def split: fault.splits list.splits)
  have jp: "find (\<lambda>p. p_key p = ?key) ?rows
            = find (\<lambda>p. p_key p = ?key \<and> p_is_active p) (prompts d)"
    unfolding find_filter by (rule find_cong) auto
  have "find (\<lambda>p. p_key p = ?key @ js ''_user'') ?rows
        = find (\<lambda>p. p_key p = ?key @ js ''_user'' \<and> p_is_active p) (prompts d)"
    unfolding find_filter by (rule find_cong) auto
  also have "\<dots> = None"
    using assms(8) by (simp add: find_None_iff)
  finally have up: "find (\<lambda>p. p_key p = ?key @ js ''_user'') ?rows = None" .
  have empty: "?rows = []"
    if "find (\<lambda>p. p_key p = ?key \<and> p_is_active p) (prompts d) = None"
    using that assms(8) by (auto simp: find_None_iff filter_empty_conv)
  have nonempty: "?rows \<noteq> []"
    if "find (\<lambda>p. p_key p = ?key \<and> p_is_active p) (prompts d) = Some prompt"
    using that by (auto simp: find_Some_iff filter_empty_conv)
  have sel: "select_rows (fault e GetPrompt) rs = Data rs" for rs :: "prompt_row list"
    using assms(7) by (simp add: select_rows_def)
  have core: "journey_kickoff_handler e d req
              = after [Store VerifyConversation, Store GetProfile]
                  (kickoff_get_prompts e d userId jid ?key)"
    using assms(1-5) by (simp add: journey_kickoff_handler_def)
  have none: "kickoff_get_prompts e d userId jid ?key
              = finish (error_response 500 (js ''Prompts not found for journey: '' @ ?key)) d
                  [Store GetJourneyMeta, Store GetPrompt]"
    if "find (\<lambda>p. p_key p = ?key \<and> p_is_active p) (prompts d) = None"
    using meta empty[OF that]
    by (simp add: kickoff_get_prompts_def sel split: res.split)
  have blank: "kickoff_get_prompts e d userId jid ?key
              = finish (error_response 500 (js ''Journey prompt not found for: '' @ ?key)) d
                  [Store GetJourneyMeta, Store GetPrompt]"
    if "find (\<lambda>p. p_key p = ?key \<and> p_is_active p) (prompts d) = Some prompt"
      and "p_content prompt = []"
    using meta nonempty[OF that(1)] that jp
    by (simp add: kickoff_get_prompts_def sel split: res.split)
  have go: "kickoff_get_prompts e d userId jid ?key
              = after [Store GetJourneyMeta, Store GetPrompt]
                  (kickoff_complete e d userId jid (p_content prompt) None)"
    if "find (\<lambda>p. p_key p = ?key \<and> p_is_active p) (prompts d) = Some prompt"
      and "p_content prompt \<noteq> []"
    using meta nonempty[OF that(1)] that jp up
    by (simp add: kickoff_get_prompts_def sel split: res.split)
  have call: "take 1 (trace (kickoff_complete e d userId jid sp None))
              = [Groq [\<lparr>g_role = System, g_content = Some (Text sp)\<rparr>,
                       \<lparr>g_role = User, g_content = None\<rparr>]]" for sp
    by (simp add: kickoff_complete_def kickoff_messages_def split: groq_outcome.split option.split)
  have saved: "response (kickoff_complete e d userId jid sp None)
              = \<lparr>status = 201,
                 payload = JourneyTurn jid (st_id (assigned e SaveAssistantMessage)) Assistant answer
                             (st_ordinal (assigned e SaveAssistantMessage))
                             (st_created_at (assigned e SaveAssistantMessage))\<rparr>"
    if "complete e [\<lparr>g_role = System, g_content = Some (Text sp)\<rparr>,
                    \<lparr>g_role = User, g_content = None\<rparr>] = GroqOk groqData"
      and "required (aiResponse groqData) = Some answer"
      and "fault e SaveAssistantMessage = NoFault" for sp
    using that
    by (simp add: kickoff_complete_def kickoff_messages_def kickoff_insert_message_def Let_def)
  show ?thesis
    using none blank go call saved
    by (simp add: core after_def finish_def)
qed

text \<open>
  The theorem at the kickoff of Alice's journey \<open>j1\<close> on the example store: the completion
  API is called with the prompt \<open>Be calm\<close> and a user turn without content, and the
  response has status 201.
\<close>

theorem kickoff_without_seed_prompt_witness:
  "take 5 (trace (journey_kickoff_handler (example_env no_faults (reply_text (js ''Welcome'')))
                    (example_db 0) (alice_request (js ''j1'') (js ''s1'') (js ''calm''))))
     = [Store VerifyConversation, Store GetProfile, Store GetJourneyMeta, Store GetPrompt,
        Groq [\<lparr>g_role = System, g_content = Some (Text (js ''Be calm''))\<rparr>,
              \<lparr>g_role = User, g_content = None\<rparr>]]
   \<and> response (journey_kickoff_handler (example_env no_faults (reply_text (js ''Welcome'')))
                 (example_db 0) (alice_request (js ''j1'') (js ''s1'') (js ''calm'')))
     = \<lparr>status = 201,
        payload = JourneyTurn (js ''j1'') (js ''row-42'') Assistant (js ''Welcome'') 42 42\<rparr>"
proof -
  let ?e = "example_env no_faults (reply_text (js ''Welcome''))"
  let ?b = "\<lparr>user_journey_id = Some (js ''j1''), chat_session_id = Some (js ''s1''),
            journey_key = Some (js ''calm''), content = Some (js ''newest'')\<rparr>"
  let ?journey = "\<lparr>uj_id = js ''j1'', uj_user_id = alice, uj_journey_key = js ''calm'',
                  uj_is_active = True\<rparr>"
  let ?prompt = "\<lparr>p_key = js ''calm'', p_content = js ''Be calm'', p_is_active = True\<rparr>"
  let ?g = "GroqData (Some [Choice (Some (ReplyMessage (Some (js ''Welcome''))))])"
  have fe: "fault ?e = no_faults" and ce: "complete ?e ms = GroqOk ?g" for ms
    by (simp_all add: example_env_def reply_text_def)
  have st: "assigned ?e SaveAssistantMessage
            = \<lparr>st_id = js ''row-42'', st_ordinal = 42, st_created_at = 42\<rparr>"
    by (simp add: example_env_def)
  have j: "required (user_journey_id ?b) = Some (js ''j1'')"
    by code_simp
  have v: "single (fault ?e VerifyConversation)
             (filter (\<lambda>j. uj_id j = js ''j1'') (user_journey (example_db 0))) = Data ?journey"
    unfolding fe by code_simp
  have o: "uj_user_id ?journey = alice"
    by simp
  have f: "fault ?e GetJourneyMeta \<noteq> Throws" "fault ?e GetPrompt = NoFault"
    "fault ?e SaveAssistantMessage = NoFault"
    by (simp_all add: fe no_faults_def)
  have u: "\<forall>p\<in>set (prompts (example_db 0)).
             \<not> (p_key p = uj_journey_key ?journey @ js ''_user'' \<and> p_is_active p)"
    by code_simp
  have p: "find (\<lambda>p. p_key p = uj_journey_key ?journey \<and> p_is_active p) (prompts (example_db 0))
           = Some ?prompt"
    and pc: "p_content ?prompt \<noteq> []"
    by code_simp+
  have t: "required (aiResponse ?g) = Some (js ''Welcome'')"
    by code_simp
  from kickoff_without_seed_prompt[OF alice_authenticated alice_body j v o f(1,2) u,
      where prompt = ?prompt and groqData = ?g and answer = "js ''Welcome''"] p pc t f(3) ce
  show ?thesis
    by (simp add: st)
qed

text \<open>
  C10. In the resolve-or-create handler, when the caller has no active journey for the key
  and the insert of a new one works, the handler issues the insert before it reads the
  journeys catalog; when the catalog has no active entry for the key, the response is 404
  with \<open>Journey not found\<close>, and the store still holds the row the request inserted: the
  request issues three store operations, none of them a delete.
\<close>

theorem journey_row_kept_on_catalog_miss:
  assumes "authenticate e req = Inr userId" and "body req = Some b"
    and "required (journey_key b) = Some key"
    and "\<forall>j\<in>set (user_journey d).
           \<not> (uj_user_id j = userId \<and> uj_journey_key j = key \<and> uj_is_active j)"
    and "fault e FindExistingJourney \<noteq> Throws"
    and "fault e CreateJourney = NoFault"
    and "\<forall>j\<in>set (journeys d). \<not> (j_key j = key \<and> j_is_active j)"
    and "fault e GetJourneyTitle \<noteq> Throws"
  shows "get_my_user_journey_id_by_key e d req =
           finish (error_response 404 (js ''Journey not found''))
             (d\<lparr>user_journey := user_journey d @
                   [\<lparr>uj_id = st_id (assigned e CreateJourney), uj_user_id = userId,
                     uj_journey_key = key, uj_is_active = True\<rparr>]\<rparr>)
             [Store FindExistingJourney, Store CreateJourney, Store GetJourneyTitle]"
proof -
  have a: "filter (\<lambda>j. uj_user_id j = userId \<and> uj_journey_key j = key \<and> uj_is_active j)
             (user_journey d) = []"
    using assms(4) by (rule filter_none)
  have b: "filter (\<lambda>j. j_key j = key \<and> j_is_active j) (journeys d) = []"
    using assms(7) by (rule filter_none)
  show ?thesis
    by (simp add: get_my_user_journey_id_by_key_def assms(1-3) a b single_Nil[OF assms(5)]
        single_Nil[OF assms(8)] assms(6) resolve_get_title_def after_def finish_def)
qed

text \<open>
  The theorem at a request of Alice for the key \<open>sleep\<close>, which the catalog does not
  hold: the response is the 404 and the journey table has a third row.
\<close>

theorem journey_row_kept_on_catalog_miss_witness:
  "response (get_my_user_journey_id_by_key (example_env no_faults GroqNotOk) (example_db 0)
               (alice_request (js ''j1'') (js ''s1'') (js ''sleep'')))
     = error_response 404 (js ''Journey not found'')
   \<and> user_journey (store (get_my_user_journey_id_by_key (example_env no_faults GroqNotOk)
                            (example_db 0) (alice_request (js ''j1'') (js ''s1'') (js ''sleep''))))
     = user_journey (example_db 0)
       @ [\<lparr>uj_id = js ''row-41'', uj_user_id = alice, uj_journey_key = js ''sleep'',
           uj_is_active = True\<rparr>]"
proof -
  let ?e = "example_env no_faults GroqNotOk"
  let ?b = "\<lparr>user_journey_id = Some (js ''j1''), chat_session_id = Some (js ''s1''),
            journey_key = Some (js ''sleep''), content = Some (js ''newest'')\<rparr>"
  have k: "required (journey_key ?b) = Some (js ''sleep'')"
    by code_simp
  have f: "fault ?e FindExistingJourney \<noteq> Throws" "fault ?e CreateJourney = NoFault"
    "fault ?e GetJourneyTitle \<noteq> Throws"
    and i: "st_id (assigned ?e CreateJourney) = js ''row-41''"
    by (simp_all add: example_env_def no_faults_def)
  have n: "\<forall>j\<in>set (user_journey (example_db 0)).
             \<not> (uj_user_id j = alice \<and> uj_journey_key j = js ''sleep'' \<and> uj_is_active j)"
    and c: "\<forall>j\<in>set (journeys (example_db 0)). \<not> (j_key j = js ''sleep'' \<and> j_is_active j)"
    by code_simp+
  from journey_row_kept_on_catalog_miss[OF alice_authenticated alice_body k n f(1,2) c f(3)]
  show ?thesis
    by (simp add: i)
qed

end
